theory Spec2Isabelle
  imports Main "HOL-Library.Sublist"
begin

section \<open>Python strings\<close>

text \<open>
  A Python \<open>str\<close> is a sequence of Unicode code points, so it is modelled as a list of
  natural numbers. The literals of the source that are plain ASCII are written
  \<open>u ''...''\<close>; the Russian literals are given by their code points, with a
  transliteration beside them.
\<close>

type_synonym pystr = "nat list"

abbreviation u :: "string \<Rightarrow> pystr" where
  "u s \<equiv> map of_char s"

text \<open>\<open>str.isspace\<close> on one code point: the whitespace table of CPython.\<close>

definition isspace :: "nat \<Rightarrow> bool" where
  "isspace c \<longleftrightarrow>
     (9 \<le> c \<and> c \<le> 13) \<or> (28 \<le> c \<and> c \<le> 32) \<or> c = 133 \<or> c = 160 \<or> c = 5760 \<or>
     (8192 \<le> c \<and> c \<le> 8202) \<or> c = 8232 \<or> c = 8233 \<or> c = 8239 \<or> c = 8287 \<or>
     c = 12288"

text \<open>\<open>s.strip()\<close>: leading and trailing whitespace removed.\<close>

definition py_strip :: "pystr \<Rightarrow> pystr" where
  "py_strip s = rev (dropWhile isspace (rev (dropWhile isspace s)))"

text \<open>\<open>a in b\<close> on strings: \<open>a\<close> occurs in \<open>b\<close> as a contiguous run.\<close>

fun str_in :: "pystr \<Rightarrow> pystr \<Rightarrow> bool" where
  "str_in a [] = (a = [])"
| "str_in a (c # cs) = (prefix a (c # cs) \<or> str_in a cs)"

text \<open>
  \<open>s.split(sep)\<close> for a non-empty separator: the pieces between the occurrences of
  \<open>sep\<close>, found from the left and not overlapping. \<open>cur\<close> is the piece being read.
  Python raises ValueError on an empty separator; the source only splits at the
  constants \<open>"/ru/"\<close> and \<open>"/"\<close>, and with an empty separator this function returns the
  string whole.
\<close>

function split_from :: "pystr \<Rightarrow> pystr \<Rightarrow> pystr \<Rightarrow> pystr list" where
  "split_from sep cur [] = [cur]"
| "split_from sep cur (c # cs) =
     (if sep \<noteq> [] \<and> prefix sep (c # cs)
      then cur # split_from sep [] (drop (length sep) (c # cs))
      else split_from sep (cur @ [c]) cs)"
  by pat_completeness auto
termination
  by (relation "measure (\<lambda>(sep, cur, s). length s)") auto

definition py_split :: "pystr \<Rightarrow> pystr \<Rightarrow> pystr list" where
  "py_split s sep = split_from sep [] s"

text \<open>\<open>str(n)\<close> for an integer: its decimal digits, with a minus sign when negative.\<close>

fun str_nat :: "nat \<Rightarrow> pystr" where
  "str_nat n = (if n < 10 then [48 + n] else str_nat (n div 10) @ [48 + n mod 10])"

definition str_int :: "int \<Rightarrow> pystr" where
  "str_int i = (if i < 0 then 45 # str_nat (nat (- i)) else str_nat (nat i))"

definition py_index :: "'a list \<Rightarrow> nat \<Rightarrow> 'a option" where
  \<comment> \<open>\<open>xs[i]\<close> for \<open>i \<ge> 0\<close>; None stands for IndexError.\<close>
  "py_index xs i = (if i < length xs then Some (xs ! i) else None)"

subsection \<open>The literals of the source that are not ASCII\<close>

definition msg_bad_credentials :: pystr where \<comment> \<open>Nevernyi login ili parol'\<close>
  "msg_bad_credentials =
     [1053, 1077, 1074, 1077, 1088, 1085, 1099, 1081, 32, 1083, 1086, 1075, 1080, 1085,
      32, 1080, 1083, 1080, 32, 1087, 1072, 1088, 1086, 1083, 1100]"

definition msg_unexpected_status :: pystr where \<comment> \<open>Neozhidannyi status otveta: \<close>
  "msg_unexpected_status =
     [1053, 1077, 1086, 1078, 1080, 1076, 1072, 1085, 1085, 1099, 1081, 32, 1089, 1090,
      1072, 1090, 1091, 1089, 32, 1086, 1090, 1074, 1077, 1090, 1072, 58, 32]"

definition msg_auth_failed :: pystr where \<comment> \<open>Oshibka autentifikatsii: \<close>
  "msg_auth_failed =
     [1054, 1096, 1080, 1073, 1082, 1072, 32, 1072, 1091, 1090, 1077, 1085, 1090, 1080,
      1092, 1080, 1082, 1072, 1094, 1080, 1080, 58, 32]"

definition msg_csrf_not_found :: pystr where \<comment> \<open>CSRF token ne naiden na stranitse\<close>
  "msg_csrf_not_found =
     [67, 83, 82, 70, 32, 1090, 1086, 1082, 1077, 1085, 32, 1085, 1077, 32, 1085, 1072,
      1081, 1076, 1077, 1085, 32, 1085, 1072, 32, 1089, 1090, 1088, 1072, 1085, 1080,
      1094, 1077]"

definition msg_csrf_empty :: pystr where \<comment> \<open>CSRF token pustoi\<close>
  "msg_csrf_empty =
     [67, 83, 82, 70, 32, 1090, 1086, 1082, 1077, 1085, 32, 1087, 1091, 1089, 1090,
      1086, 1081]"

definition msg_csrf_failed :: pystr where \<comment> \<open>Oshibka polucheniya CSRF tokena: \<close>
  "msg_csrf_failed =
     [1054, 1096, 1080, 1073, 1082, 1072, 32, 1087, 1086, 1083, 1091, 1095, 1077, 1085,
      1080, 1103, 32, 67, 83, 82, 70, 32, 1090, 1086, 1082, 1077, 1085, 1072, 58, 32]"

definition msg_network :: pystr where \<comment> \<open>Oshibka seti: \<close>
  "msg_network =
     [1054, 1096, 1080, 1073, 1082, 1072, 32, 1089, 1077, 1090, 1080, 58, 32]"

definition msg_retries_exceeded :: pystr where \<comment> \<open>Prevysheno maksimal'noe kolichestvo popytok\<close>
  "msg_retries_exceeded =
     [1055, 1088, 1077, 1074, 1099, 1096, 1077, 1085, 1086, 32, 1084, 1072, 1082, 1089,
      1080, 1084, 1072, 1083, 1100, 1085, 1086, 1077, 32, 1082, 1086, 1083, 1080, 1095,
      1077, 1089, 1090, 1074, 1086, 32, 1087, 1086, 1087, 1099, 1090, 1086, 1082]"

definition msg_need_auth :: pystr where \<comment> \<open>Neobkhodima autentifikatsiya\<close>
  "msg_need_auth =
     [1053, 1077, 1086, 1073, 1093, 1086, 1076, 1080, 1084, 1072, 32, 1072, 1091, 1090,
      1077, 1085, 1090, 1080, 1092, 1080, 1082, 1072, 1094, 1080, 1103]"

definition msg_session_expired :: pystr where \<comment> \<open>Sessiya istekla\<close>
  "msg_session_expired =
     [1057, 1077, 1089, 1089, 1080, 1103, 32, 1080, 1089, 1090, 1077, 1082, 1083, 1072]"

definition msg_student_failed :: pystr where \<comment> \<open>Oshibka polucheniya informatsii o studente: \<close>
  "msg_student_failed =
     [1054, 1096, 1080, 1073, 1082, 1072, 32, 1087, 1086, 1083, 1091, 1095, 1077, 1085,
      1080, 1103, 32, 1080, 1085, 1092, 1086, 1088, 1084, 1072, 1094, 1080, 1080, 32,
      1086, 32, 1089, 1090, 1091, 1076, 1077, 1085, 1090, 1077, 58, 32]"

definition msg_required_pre :: pystr where \<comment> \<open>Obyazatel'noe pole '\<close>
  "msg_required_pre =
     [1054, 1073, 1103, 1079, 1072, 1090, 1077, 1083, 1100, 1085, 1086, 1077, 32, 1087,
      1086, 1083, 1077, 32, 39]"

definition msg_required_post :: pystr where \<comment> \<open>' ne naideno\<close>
  "msg_required_post =
     [39, 32, 1085, 1077, 32, 1085, 1072, 1081, 1076, 1077, 1085, 1086]"

definition msg_parse_failed :: pystr where \<comment> \<open>Oshibka parsinga informatsii o studente: \<close>
  "msg_parse_failed =
     [1054, 1096, 1080, 1073, 1082, 1072, 32, 1087, 1072, 1088, 1089, 1080, 1085, 1075,
      1072, 32, 1080, 1085, 1092, 1086, 1088, 1084, 1072, 1094, 1080, 1080, 32, 1086,
      32, 1089, 1090, 1091, 1076, 1077, 1085, 1090, 1077, 58, 32]"

definition lbl_record_book_number :: pystr where \<comment> \<open>Nomer zachetki:\<close>
  "lbl_record_book_number =
     [1053, 1086, 1084, 1077, 1088, 32, 1079, 1072, 1095, 1077, 1090, 1082, 1080, 58]"

definition lbl_study_form :: pystr where \<comment> \<open>Forma obucheniya:\<close>
  "lbl_study_form =
     [1060, 1086, 1088, 1084, 1072, 32, 1086, 1073, 1091, 1095, 1077, 1085, 1080, 1103,
      58]"

definition lbl_preparation_level :: pystr where \<comment> \<open>Uroven' podgotovki:\<close>
  "lbl_preparation_level =
     [1059, 1088, 1086, 1074, 1077, 1085, 1100, 32, 1087, 1086, 1076, 1075, 1086, 1090,
      1086, 1074, 1082, 1080, 58]"

definition lbl_specialization :: pystr where \<comment> \<open>Spetsializatsiya:\<close>
  "lbl_specialization =
     [1057, 1087, 1077, 1094, 1080, 1072, 1083, 1080, 1079, 1072, 1094, 1080, 1103, 58]"

definition lbl_specialty :: pystr where \<comment> \<open>Spetsial'nost':\<close>
  "lbl_specialty =
     [1057, 1087, 1077, 1094, 1080, 1072, 1083, 1100, 1085, 1086, 1089, 1090, 1100, 58]"

definition lbl_faculty :: pystr where \<comment> \<open>Fakul'tet:\<close>
  "lbl_faculty =
     [1060, 1072, 1082, 1091, 1083, 1100, 1090, 1077, 1090, 58]"

definition lbl_course :: pystr where \<comment> \<open>Kurs:\<close>
  "lbl_course =
     [1050, 1091, 1088, 1089, 58]"

definition lbl_group :: pystr where \<comment> \<open>Gruppa:\<close>
  "lbl_group =
     [1043, 1088, 1091, 1087, 1087, 1072, 58]"

definition lbl_financing_form :: pystr where \<comment> \<open>Forma finansirovaniya:\<close>
  "lbl_financing_form =
     [1060, 1086, 1088, 1084, 1072, 32, 1092, 1080, 1085, 1072, 1085, 1089, 1080, 1088,
      1086, 1074, 1072, 1085, 1080, 1103, 58]"

definition lbl_dormitory :: pystr where \<comment> \<open>Obshchezhitie:\<close>
  "lbl_dormitory =
     [1054, 1073, 1097, 1077, 1078, 1080, 1090, 1080, 1077, 58]"

definition lbl_end_date :: pystr where \<comment> \<open>Data okonchaniya:\<close>
  "lbl_end_date =
     [1044, 1072, 1090, 1072, 32, 1086, 1082, 1086, 1085, 1095, 1072, 1085, 1080, 1103,
      58]"

definition lbl_personal_email :: pystr where \<comment> \<open>Lichnaya pochta:\<close>
  "lbl_personal_email =
     [1051, 1080, 1095, 1085, 1072, 1103, 32, 1087, 1086, 1095, 1090, 1072, 58]"

definition lbl_personal_phone :: pystr where \<comment> \<open>Lichnyi nomer telefona:\<close>
  "lbl_personal_phone =
     [1051, 1080, 1095, 1085, 1099, 1081, 32, 1085, 1086, 1084, 1077, 1088, 32, 1090,
      1077, 1083, 1077, 1092, 1086, 1085, 1072, 58]"

definition lbl_corporate_email :: pystr where \<comment> \<open>Korporativnaya pochta:\<close>
  "lbl_corporate_email =
     [1050, 1086, 1088, 1087, 1086, 1088, 1072, 1090, 1080, 1074, 1085, 1072, 1103, 32,
      1087, 1086, 1095, 1090, 1072, 58]"

definition msg_full_name_empty :: pystr where \<comment> \<open>Polnoe imya ne mozhet byt' pustym\<close>
  "msg_full_name_empty =
     [1055, 1086, 1083, 1085, 1086, 1077, 32, 1080, 1084, 1103, 32, 1085, 1077, 32,
      1084, 1086, 1078, 1077, 1090, 32, 1073, 1099, 1090, 1100, 32, 1087, 1091, 1089,
      1090, 1099, 1084]"

definition msg_record_book_empty :: pystr where \<comment> \<open>Nomer zachetnoi knizhki ne mozhet byt' pustym\<close>
  "msg_record_book_empty =
     [1053, 1086, 1084, 1077, 1088, 32, 1079, 1072, 1095, 1077, 1090, 1085, 1086, 1081,
      32, 1082, 1085, 1080, 1078, 1082, 1080, 32, 1085, 1077, 32, 1084, 1086, 1078,
      1077, 1090, 32, 1073, 1099, 1090, 1100, 32, 1087, 1091, 1089, 1090, 1099, 1084]"

definition msg_bad_email :: pystr where \<comment> \<open>Nekorrektnyi format email\<close>
  "msg_bad_email =
     [1053, 1077, 1082, 1086, 1088, 1088, 1077, 1082, 1090, 1085, 1099, 1081, 32, 1092,
      1086, 1088, 1084, 1072, 1090, 32, 101, 109, 97, 105, 108]"

definition msg_login_empty :: pystr where \<comment> \<open>Login ne mozhet byt' pustym\<close>
  "msg_login_empty =
     [1051, 1086, 1075, 1080, 1085, 32, 1085, 1077, 32, 1084, 1086, 1078, 1077, 1090,
      32, 1073, 1099, 1090, 1100, 32, 1087, 1091, 1089, 1090, 1099, 1084]"

definition msg_password_empty :: pystr where \<comment> \<open>Parol' ne mozhet byt' pustym\<close>
  "msg_password_empty =
     [1055, 1072, 1088, 1086, 1083, 1100, 32, 1085, 1077, 32, 1084, 1086, 1078, 1077,
      1090, 32, 1073, 1099, 1090, 1100, 32, 1087, 1091, 1089, 1090, 1099, 1084]"

definition msg_api_id_empty :: pystr where \<comment> \<open>API ID ne mozhet byt' pustym\<close>
  "msg_api_id_empty =
     [65, 80, 73, 32, 73, 68, 32, 1085, 1077, 32, 1084, 1086, 1078, 1077, 1090, 32,
      1073, 1099, 1090, 1100, 32, 1087, 1091, 1089, 1090, 1099, 1084]"

definition msg_csrf_token_empty :: pystr where \<comment> \<open>CSRF token ne mozhet byt' pustym\<close>
  "msg_csrf_token_empty =
     [67, 83, 82, 70, 32, 1090, 1086, 1082, 1077, 1085, 32, 1085, 1077, 32, 1084, 1086,
      1078, 1077, 1090, 32, 1073, 1099, 1090, 1100, 32, 1087, 1091, 1089, 1090, 1099,
      1084]"

definition lit_commit :: pystr where \<comment> \<open>Voiti\<close>
  "lit_commit =
     [1042, 1086, 1081, 1090, 1080]"

definition lit_check_mark :: pystr where \<comment> \<open>the check mark U+2713\<close>
  "lit_check_mark =
     [10003]"


section \<open>Exceptions (exceptions.py)\<close>

text \<open>
  The four subclasses of \<open>MisisError\<close> carry their message. \<open>ValidationError\<close> is
  pydantic's: it lists the fields that failed, each with the message of its validator.
  \<open>IndexError\<close> is raised by a list index out of range, and \<open>OtherException\<close> is any
  other \<open>Exception\<close> that the HTTP library raises; both carry \<open>str(e)\<close>.
\<close>

datatype exn =
    AuthenticationError pystr
  | NetworkError pystr
  | ParseError pystr
  | SessionExpiredError pystr
  | ValidationError "(pystr \<times> pystr) list"
  | IndexError pystr
  | OtherException pystr

text \<open>The \<open>status_code\<close> attribute each subclass of \<open>MisisError\<close> sets.\<close>

fun status_code :: "exn \<Rightarrow> int option" where
  "status_code (AuthenticationError m) = Some 401"
| "status_code (NetworkError m) = Some 0"
| "status_code (ParseError m) = Some 200"
| "status_code (SessionExpiredError m) = Some 401"
| "status_code e = None"

section \<open>The models (models.py)\<close>

record student_info =
  full_name :: pystr
  record_book_number :: pystr
  study_form :: pystr
  preparation_level :: pystr
  specialization :: "pystr option"
  specialty :: pystr
  faculty :: pystr
  course :: pystr
  group :: pystr
  financing_form :: pystr
  dormitory :: pystr
  end_date :: pystr
  personal_email :: "pystr option"
  personal_phone :: "pystr option"
  corporate_email :: "pystr option"

record authentication_data =
  login :: pystr
  password :: pystr
  remember_me :: bool

record session_info =
  api_id :: pystr
  csrf_token :: pystr
  is_authenticated :: bool

text \<open>
  A field validator returns the value to store, or raises \<open>ValueError\<close> with a message
  (\<open>Inl\<close>). pydantic validates every field and raises one \<open>ValidationError\<close> that
  lists all the failures: \<open>ap\<close> applies a constructor to one more validated field and
  collects the failures of both sides.
\<close>

type_synonym 'a validated = "(pystr \<times> pystr) list + 'a"

fun ap :: "('a \<Rightarrow> 'b) validated \<Rightarrow> 'a validated \<Rightarrow> 'b validated" where
  "ap (Inr f) (Inr x) = Inr (f x)"
| "ap (Inr f) (Inl es) = Inl es"
| "ap (Inl es) (Inr x) = Inl es"
| "ap (Inl es) (Inl es') = Inl (es @ es')"

definition validated_field :: "pystr \<Rightarrow> pystr + 'a \<Rightarrow> 'a validated" where
  \<comment> \<open>the outcome of one field's validator, under the field's name\<close>
  "validated_field name r = (case r of Inl msg \<Rightarrow> Inl [(name, msg)] | Inr v \<Rightarrow> Inr v)"

definition model_result :: "'a validated \<Rightarrow> exn + 'a" where
  "model_result r = (case r of Inl es \<Rightarrow> Inl (ValidationError es) | Inr m \<Rightarrow> Inr m)"

text \<open>
  A keyword argument of a model call: \<open>None\<close> when the keyword is not given,
  \<open>Some None\<close> when it is given as Python's \<open>None\<close>. A field of type \<open>str\<close> needs a
  string; a field of type \<open>Optional[str]\<close> with default \<open>None\<close> takes the default
  without running its validator when the keyword is not given.
\<close>

definition required_str :: "(pystr \<Rightarrow> pystr + pystr) \<Rightarrow> pystr option option \<Rightarrow> pystr + pystr" where
  "required_str validator arg =
     (case arg of
        None \<Rightarrow> Inl (u ''Field required'')
      | Some None \<Rightarrow> Inl (u ''Input should be a valid string'')
      | Some (Some v) \<Rightarrow> validator v)"

definition optional_str ::
  "(pystr option \<Rightarrow> pystr + pystr option) \<Rightarrow> pystr option option \<Rightarrow> pystr + pystr option" where
  "optional_str validator arg = (case arg of None \<Rightarrow> Inr None | Some v \<Rightarrow> validator v)"

definition no_validator :: "'a \<Rightarrow> pystr + 'a" where
  "no_validator v = Inr v"

definition validate_full_name :: "pystr \<Rightarrow> pystr + pystr" where
  "validate_full_name v =
     (if v = [] \<or> py_strip v = [] then Inl msg_full_name_empty else Inr (py_strip v))"

definition validate_record_book_number :: "pystr \<Rightarrow> pystr + pystr" where
  "validate_record_book_number v =
     (if v = [] \<or> py_strip v = [] then Inl msg_record_book_empty else Inr (py_strip v))"

definition validate_personal_email :: "pystr option \<Rightarrow> pystr + pystr option" where
  "validate_personal_email v =
     (case v of
        None \<Rightarrow> Inr v
      | Some e \<Rightarrow> if e \<noteq> [] \<and> \<not> str_in (u ''@'') e then Inl msg_bad_email else Inr v)"

definition validate_corporate_email :: "pystr option \<Rightarrow> pystr + pystr option" where
  "validate_corporate_email v =
     (case v of
        None \<Rightarrow> Inr v
      | Some e \<Rightarrow> if e \<noteq> [] \<and> \<not> str_in (u ''@'') e then Inl msg_bad_email else Inr v)"

text \<open>\<open>StudentInfo(**data)\<close>: \<open>kw\<close> is the dictionary of keyword arguments.\<close>

definition StudentInfo :: "(pystr \<rightharpoonup> pystr option) \<Rightarrow> exn + student_info" where
  "StudentInfo kw =
     model_result
       (ap (ap (ap (ap (ap (ap (ap (ap (ap (ap (ap (ap (ap (ap (ap
         (Inr (\<lambda>a b c d e f g h i j k l m n p.
            \<lparr>full_name = a, record_book_number = b, study_form = c, preparation_level = d,
             specialization = e, specialty = f, faculty = g, course = h, group = i,
             financing_form = j, dormitory = k, end_date = l, personal_email = m,
             personal_phone = n, corporate_email = p\<rparr>))
         (validated_field (u ''full_name'')
            (required_str validate_full_name (kw (u ''full_name'')))))
         (validated_field (u ''record_book_number'')
            (required_str validate_record_book_number (kw (u ''record_book_number'')))))
         (validated_field (u ''study_form'') (required_str no_validator (kw (u ''study_form'')))))
         (validated_field (u ''preparation_level'')
            (required_str no_validator (kw (u ''preparation_level'')))))
         (validated_field (u ''specialization'')
            (optional_str no_validator (kw (u ''specialization'')))))
         (validated_field (u ''specialty'') (required_str no_validator (kw (u ''specialty'')))))
         (validated_field (u ''faculty'') (required_str no_validator (kw (u ''faculty'')))))
         (validated_field (u ''course'') (required_str no_validator (kw (u ''course'')))))
         (validated_field (u ''group'') (required_str no_validator (kw (u ''group'')))))
         (validated_field (u ''financing_form'')
            (required_str no_validator (kw (u ''financing_form'')))))
         (validated_field (u ''dormitory'') (required_str no_validator (kw (u ''dormitory'')))))
         (validated_field (u ''end_date'') (required_str no_validator (kw (u ''end_date'')))))
         (validated_field (u ''personal_email'')
            (optional_str validate_personal_email (kw (u ''personal_email'')))))
         (validated_field (u ''personal_phone'')
            (optional_str no_validator (kw (u ''personal_phone'')))))
         (validated_field (u ''corporate_email'')
            (optional_str validate_corporate_email (kw (u ''corporate_email'')))))"

definition validate_login :: "pystr \<Rightarrow> pystr + pystr" where
  "validate_login v =
     (if v = [] \<or> py_strip v = [] then Inl msg_login_empty else Inr (py_strip v))"

definition validate_password :: "pystr \<Rightarrow> pystr + pystr" where
  "validate_password v = (if v = [] then Inl msg_password_empty else Inr v)"

text \<open>\<open>AuthenticationData(login=lg, password=pw)\<close>; \<open>remember_me\<close> takes its default.\<close>

definition AuthenticationData :: "pystr \<Rightarrow> pystr \<Rightarrow> exn + authentication_data" where
  "AuthenticationData lg pw =
     model_result
       (ap (ap (Inr (\<lambda>a b. \<lparr>login = a, password = b, remember_me = False\<rparr>))
         (validated_field (u ''login'') (validate_login lg)))
         (validated_field (u ''password'') (validate_password pw)))"

definition validate_api_id :: "pystr \<Rightarrow> pystr + pystr" where
  "validate_api_id v =
     (if v = [] \<or> py_strip v = [] then Inl msg_api_id_empty else Inr (py_strip v))"

definition validate_csrf_token :: "pystr \<Rightarrow> pystr + pystr" where
  "validate_csrf_token v =
     (if v = [] \<or> py_strip v = [] then Inl msg_csrf_token_empty else Inr (py_strip v))"

text \<open>\<open>SessionInfo(api_id=a, csrf_token=t, is_authenticated=b)\<close>.\<close>

definition SessionInfo :: "pystr \<Rightarrow> pystr \<Rightarrow> bool \<Rightarrow> exn + session_info" where
  "SessionInfo a t b =
     model_result
       (ap (ap (Inr (\<lambda>x y. \<lparr>api_id = x, csrf_token = y, is_authenticated = b\<rparr>))
         (validated_field (u ''api_id'') (validate_api_id a)))
         (validated_field (u ''csrf_token'') (validate_csrf_token t)))"

section \<open>The network and the HTML parser\<close>

text \<open>
  Everything outside the repository is a parameter. A request is the call
  \<open>session.request(method, url, **kwargs)\<close>; its outcome is a response, an
  \<open>aiohttp.ClientError\<close> (raised by the request or by reading the body), or some other
  exception, the last two with \<open>str(e)\<close>. Of a response the model keeps what the client
  reads: \<open>reason\<close> as the message prints it, \<open>body\<close> for \<open>await response.text()\<close>,
  \<open>url\<close> for \<open>str(response.url)\<close> and \<open>headers\<close> for what \<open>headers.get\<close> returns.
\<close>

record request =
  http_method :: pystr
  req_url :: pystr
  form_data :: "(pystr \<times> pystr) list option"
  allow_redirects :: bool

record response =
  status :: int
  reason :: pystr
  body :: pystr
  url :: pystr
  headers :: "pystr \<rightharpoonup> pystr"

datatype outcome = Responded response | ClientError pystr | Raised pystr

text \<open>
  Of a parsed document the model keeps the answers to the queries the client makes:
  \<^item> \<open>csrf_meta\<close>: \<open>soup.find('meta', {'name': 'csrf-token'})\<close>, \<open>None\<close> when there is no
    such tag, otherwise the tag's \<open>get('content')\<close>;
  \<^item> \<open>person_name\<close>: \<open>soup.find('div', class_='person_name')\<close>, \<open>None\<close> when there is no
    such block, otherwise \<open>get_text(strip=True)\<close> of its \<open>h3\<close>, if it has one;
  \<^item> \<open>person_labels\<close>: the \<open>span\<close> elements of class \<open>person__label\<close> in document order,
    each with its \<open>.string\<close> and with \<open>get_text(strip=True)\<close> of its next sibling \<open>span\<close>
    of class \<open>person__value\<close>, if it has one.
\<close>

record soup =
  csrf_meta :: "pystr option option"
  person_name :: "pystr option option"
  person_labels :: "(pystr option \<times> pystr option) list"

text \<open>
  The world: the server answers a request knowing the requests issued before it;
  \<open>BeautifulSoup\<close> is \<open>BeautifulSoup(text, 'html.parser')\<close>; \<open>validation_str\<close> is
  \<open>str(e)\<close> of a pydantic \<open>ValidationError\<close>.
\<close>

record world =
  respond :: "request list \<Rightarrow> request \<Rightarrow> outcome"
  BeautifulSoup :: "pystr \<Rightarrow> soup"
  validation_str :: "(pystr \<times> pystr) list \<Rightarrow> pystr"

text \<open>\<open>str(e)\<close>, as the f-strings of the except clauses print an exception.\<close>

fun exn_str :: "world \<Rightarrow> exn \<Rightarrow> pystr" where
  "exn_str w (AuthenticationError m) = m"
| "exn_str w (NetworkError m) = m"
| "exn_str w (ParseError m) = m"
| "exn_str w (SessionExpiredError m) = m"
| "exn_str w (ValidationError es) = validation_str w es"
| "exn_str w (IndexError m) = m"
| "exn_str w (OtherException m) = m"

section \<open>The client (client.py)\<close>

text \<open>
  The state of a \<open>MisisClient\<close>: \<open>http_session\<close> says whether \<open>self._session\<close> is set,
  \<open>session_info\<close> is \<open>self._session_info\<close>. Two more fields record what the client
  does to the world: the requests it has issued and the delays it has slept, in order.
  The \<open>timeout\<close> only configures the HTTP library; a request that times out is one of
  the outcomes of the network.
\<close>

record client =
  max_retries :: int
  http_session :: bool
  owned_session :: bool
  session_info :: "session_info option"
  requests :: "request list"
  sleeps :: "nat list"

definition BASE_URL :: pystr where
  "BASE_URL = u ''https://lk.misis.ru''"

definition AUTH_URL :: pystr where
  "AUTH_URL = BASE_URL @ u ''/ru/users/sign_in''"

text \<open>\<open>MisisClient(max_retries=mr, session=...)\<close>; \<open>ext\<close> says that a session was passed.\<close>

definition MisisClient :: "int \<Rightarrow> bool \<Rightarrow> client" where
  "MisisClient mr ext =
     \<lparr>max_retries = mr, http_session = ext, owned_session = \<not> ext, session_info = None,
      requests = [], sleeps = []\<rparr>"

definition aenter :: "client \<Rightarrow> client" where
  "aenter c = (if \<not> http_session c then c\<lparr>http_session := True\<rparr> else c)"

definition close :: "client \<Rightarrow> client" where
  "close c = (if http_session c \<and> owned_session c then c\<lparr>http_session := False\<rparr> else c)"

definition get_session :: "client \<Rightarrow> client" where
  "get_session c = (if \<not> http_session c then c\<lparr>http_session := True\<rparr> else c)"

type_synonym reply = "int \<times> pystr \<times> pystr \<times> (pystr \<rightharpoonup> pystr)"

text \<open>
  The loop of \<open>_make_request\<close> over the attempts still to make. Each attempt issues the
  request; a status of 400 or more and a \<open>ClientError\<close> end the loop at the last attempt
  and otherwise sleep \<open>2 ** attempt\<close>; any other exception leaves the loop at once.
\<close>

fun attempts :: "world \<Rightarrow> request \<Rightarrow> nat list \<Rightarrow> client \<Rightarrow> (exn + reply) \<times> client" where
  "attempts w rq [] c = (Inl (NetworkError msg_retries_exceeded), c)"
| "attempts w rq (attempt # rest) c =
     (let c1 = c\<lparr>requests := requests c @ [rq]\<rparr> in
      case respond w (requests c) rq of
        Responded r \<Rightarrow>
          if status r \<ge> 400 then
            if int attempt = max_retries c - 1
            then (Inl (NetworkError (u ''HTTP '' @ str_int (status r) @ u '': '' @ reason r)), c1)
            else attempts w rq rest (c1\<lparr>sleeps := sleeps c1 @ [2 ^ attempt]\<rparr>)
          else (Inr (status r, body r, url r, headers r), c1)
      | ClientError e \<Rightarrow>
          if int attempt = max_retries c - 1
          then (Inl (NetworkError (msg_network @ e)), c1)
          else attempts w rq rest (c1\<lparr>sleeps := sleeps c1 @ [2 ^ attempt]\<rparr>)
      | Raised e \<Rightarrow> (Inl (OtherException e), c1))"

definition make_request :: "world \<Rightarrow> request \<Rightarrow> client \<Rightarrow> (exn + reply) \<times> client" where
  "make_request w rq c = attempts w rq [0..<nat (max_retries c)] (get_session c)"

text \<open>The except clause of \<open>_get_csrf_token\<close>.\<close>

fun csrf_except :: "world \<Rightarrow> exn \<Rightarrow> exn" where
  "csrf_except w (ParseError m) = ParseError m"
| "csrf_except w (NetworkError m) = NetworkError m"
| "csrf_except w e = ParseError (msg_csrf_failed @ exn_str w e)"

definition get_csrf_token :: "world \<Rightarrow> client \<Rightarrow> (exn + pystr) \<times> client" where
  "get_csrf_token w c =
     (case make_request w
        \<lparr>http_method = u ''GET'', req_url = AUTH_URL, form_data = None, allow_redirects = True\<rparr> c of
        (Inl e, c1) \<Rightarrow> (Inl (csrf_except w e), c1)
      | (Inr (st, txt, ur, hdrs), c1) \<Rightarrow>
          (case csrf_meta (BeautifulSoup w txt) of
             None \<Rightarrow> (Inl (csrf_except w (ParseError msg_csrf_not_found)), c1)
           | Some content \<Rightarrow>
               (case content of
                  None \<Rightarrow> (Inl (csrf_except w (ParseError msg_csrf_empty)), c1)
                | Some tok \<Rightarrow>
                    if tok = [] then (Inl (csrf_except w (ParseError msg_csrf_empty)), c1)
                    else (Inr tok, c1))))"

text \<open>The form that \<open>authenticate\<close> posts.\<close>

definition auth_payload :: "authentication_data \<Rightarrow> pystr \<Rightarrow> (pystr \<times> pystr) list" where
  "auth_payload auth_data tok =
     [(u ''user[login]'', login auth_data),
      (u ''user[password]'', password auth_data),
      (u ''user[remember_me]'', if remember_me auth_data then u ''1'' else u ''0''),
      (u ''commit'', lit_commit),
      (u ''utf8'', lit_check_mark),
      (u ''authenticity_token'', tok)]"

text \<open>The except clause of \<open>authenticate\<close>.\<close>

fun authenticate_except :: "world \<Rightarrow> exn \<Rightarrow> exn" where
  "authenticate_except w (AuthenticationError m) = AuthenticationError m"
| "authenticate_except w (NetworkError m) = NetworkError m"
| "authenticate_except w (ParseError m) = ParseError m"
| "authenticate_except w e = AuthenticationError (msg_auth_failed @ exn_str w e)"

text \<open>
  What \<open>authenticate\<close> does with the reply to the login POST: the checks in the
  source's order, then the account identifier cut out of the \<open>Location\<close> header and the
  \<open>SessionInfo\<close> built from it. The result is the exception the try block raises, or
  the new session.
\<close>

definition check_login_reply :: "reply \<Rightarrow> pystr \<Rightarrow> exn + session_info" where
  "check_login_reply rp tok =
     (case rp of (st, txt, ur, hdrs) \<Rightarrow>
        (case hdrs (u ''Location'') of
           None \<Rightarrow> Inl (AuthenticationError msg_bad_credentials)
         | Some loc \<Rightarrow>
             if loc = [] then Inl (AuthenticationError msg_bad_credentials)
             else if \<not> str_in (u ''/s'') loc
             then Inl (AuthenticationError msg_bad_credentials)
             else if st \<notin> {302, 200}
             then Inl (AuthenticationError (msg_unexpected_status @ str_int st))
             else if str_in msg_bad_credentials txt
             then Inl (AuthenticationError msg_bad_credentials)
             else
               (case py_index (py_split loc (u ''/ru/'')) 1 of
                  None \<Rightarrow> Inl (IndexError (u ''list index out of range''))
                | Some rest \<Rightarrow>
                    (case py_index (py_split rest (u ''/'')) 0 of
                       None \<Rightarrow> Inl (IndexError (u ''list index out of range''))
                     | Some a \<Rightarrow> SessionInfo a tok True))))"

definition authenticate :: "world \<Rightarrow> pystr \<Rightarrow> pystr \<Rightarrow> client \<Rightarrow> (exn + session_info) \<times> client" where
  "authenticate w lg pw c =
     (case AuthenticationData lg pw of
        Inl e \<Rightarrow> (Inl e, c)
      | Inr auth_data \<Rightarrow>
          (case get_csrf_token w c of
             (Inl e, c1) \<Rightarrow> (Inl (authenticate_except w e), c1)
           | (Inr tok, c1) \<Rightarrow>
               (case make_request w
                  \<lparr>http_method = u ''POST'', req_url = AUTH_URL,
                   form_data = Some (auth_payload auth_data tok), allow_redirects = False\<rparr> c1 of
                  (Inl e, c2) \<Rightarrow> (Inl (authenticate_except w e), c2)
                | (Inr rp, c2) \<Rightarrow>
                    (case check_login_reply rp tok of
                       Inl e \<Rightarrow> (Inl (authenticate_except w e), c2)
                     | Inr si \<Rightarrow> (Inr si, c2\<lparr>session_info := Some si\<rparr>)))))"

text \<open>
  \<open>extract_value\<close> of \<open>_parse_student_info\<close>: the first label whose string is not empty
  and contains the caption, and the text of the value beside it.
\<close>

definition extract_value :: "soup \<Rightarrow> pystr \<Rightarrow> pystr option" where
  "extract_value sp label_text =
     (case find (\<lambda>(s, v). case s of None \<Rightarrow> False | Some t \<Rightarrow> t \<noteq> [] \<and> str_in label_text t)
             (person_labels sp) of
        None \<Rightarrow> None
      | Some (s, value_span) \<Rightarrow> value_span)"

text \<open>\<open>data.get(k)\<close> on a dictionary whose values may be \<open>None\<close>.\<close>

definition dict_get :: "(pystr \<rightharpoonup> pystr option) \<Rightarrow> pystr \<Rightarrow> pystr option" where
  "dict_get d k = (case d k of None \<Rightarrow> None | Some v \<Rightarrow> v)"

definition required_fields :: "pystr list" where
  "required_fields =
     [u ''full_name'', u ''record_book_number'', u ''study_form'', u ''preparation_level'',
      u ''specialty'', u ''faculty'', u ''course'', u ''group'', u ''financing_form'',
      u ''dormitory'', u ''end_date'']"

text \<open>The dictionary \<open>data\<close> that \<open>_parse_student_info\<close> collects from the document.\<close>

definition collect_data :: "soup \<Rightarrow> (pystr \<rightharpoonup> pystr option)" where
  "collect_data sp =
     ((case person_name sp of
         None \<Rightarrow> Map.empty
       | Some h3 \<Rightarrow> [u ''full_name'' \<mapsto> Some (case h3 of None \<Rightarrow> [] | Some t \<Rightarrow> t)])
      (u ''record_book_number'' \<mapsto> extract_value sp lbl_record_book_number,
       u ''study_form'' \<mapsto> extract_value sp lbl_study_form,
       u ''preparation_level'' \<mapsto> extract_value sp lbl_preparation_level,
       u ''specialization'' \<mapsto> extract_value sp lbl_specialization,
       u ''specialty'' \<mapsto> extract_value sp lbl_specialty,
       u ''faculty'' \<mapsto> extract_value sp lbl_faculty,
       u ''course'' \<mapsto> extract_value sp lbl_course,
       u ''group'' \<mapsto> extract_value sp lbl_group,
       u ''financing_form'' \<mapsto> extract_value sp lbl_financing_form,
       u ''dormitory'' \<mapsto> extract_value sp lbl_dormitory,
       u ''end_date'' \<mapsto> extract_value sp lbl_end_date,
       u ''personal_email'' \<mapsto> extract_value sp lbl_personal_email,
       u ''personal_phone'' \<mapsto> extract_value sp lbl_personal_phone,
       u ''corporate_email'' \<mapsto> extract_value sp lbl_corporate_email))"

text \<open>The except clause of \<open>_parse_student_info\<close>.\<close>

fun parse_except :: "world \<Rightarrow> exn \<Rightarrow> exn" where
  "parse_except w (ParseError m) = ParseError m"
| "parse_except w e = ParseError (msg_parse_failed @ exn_str w e)"

text \<open>
  The check of the required fields and the construction of the record, from the
  collected dictionary: the loop raises at the first required field that is \<open>None\<close>.
\<close>

definition build_student_info :: "world \<Rightarrow> (pystr \<rightharpoonup> pystr option) \<Rightarrow> exn + student_info" where
  "build_student_info w data =
     (case find (\<lambda>fld. dict_get data fld = None) required_fields of
        Some fld \<Rightarrow> Inl (parse_except w (ParseError (msg_required_pre @ fld @ msg_required_post)))
      | None \<Rightarrow>
          (case StudentInfo data of
             Inl e \<Rightarrow> Inl (parse_except w e)
           | Inr info \<Rightarrow> Inr info))"

definition parse_student_info :: "world \<Rightarrow> pystr \<Rightarrow> exn + student_info" where
  "parse_student_info w html = build_student_info w (collect_data (BeautifulSoup w html))"

text \<open>The except clause of \<open>get_student_info\<close>.\<close>

fun student_info_except :: "world \<Rightarrow> exn \<Rightarrow> exn" where
  "student_info_except w (SessionExpiredError m) = SessionExpiredError m"
| "student_info_except w (NetworkError m) = NetworkError m"
| "student_info_except w (ParseError m) = ParseError m"
| "student_info_except w e = ParseError (msg_student_failed @ exn_str w e)"

definition get_student_info :: "world \<Rightarrow> client \<Rightarrow> (exn + student_info) \<times> client" where
  "get_student_info w c =
     (case session_info c of
        None \<Rightarrow> (Inl (SessionExpiredError msg_need_auth), c)
      | Some si \<Rightarrow>
          if \<not> is_authenticated si then (Inl (SessionExpiredError msg_need_auth), c)
          else
            (case make_request w
               \<lparr>http_method = u ''GET'',
                req_url = BASE_URL @ u ''/ru/'' @ api_id si @ u ''/profile'',
                form_data = None, allow_redirects = True\<rparr> c of
               (Inl e, c1) \<Rightarrow> (Inl (student_info_except w e), c1)
             | (Inr (st, txt, ur, hdrs), c1) \<Rightarrow>
                 if str_in (u ''sign_in'') ur
                 then (Inl (student_info_except w (SessionExpiredError msg_session_expired)),
                       c1\<lparr>session_info := Some (si\<lparr>is_authenticated := False\<rparr>)\<rparr>)
                 else
                   (case parse_student_info w txt of
                      Inl e \<Rightarrow> (Inl (student_info_except w e), c1)
                    | Inr info \<Rightarrow> (Inr info, c1))))"

text \<open>The property \<open>is_authenticated\<close> of the client.\<close>

definition client_is_authenticated :: "client \<Rightarrow> bool" where
  "client_is_authenticated c =
     (case session_info c of None \<Rightarrow> False | Some si \<Rightarrow> is_authenticated si)"

section \<open>The client's operations as steps\<close>

text \<open>
  The public operations of a client, what one of them returns, and a client driven
  through a list of them; \<open>run\<close> goes on after an operation that raised, as a caller
  that catches the exception does.
\<close>

datatype op = Enter | Authenticate pystr pystr | GetStudentInfo | Close

datatype ret = Session session_info | Student student_info | NoValue

fun step :: "world \<Rightarrow> op \<Rightarrow> client \<Rightarrow> (exn + ret) \<times> client" where
  "step w Enter c = (Inr NoValue, aenter c)"
| "step w (Authenticate lg pw) c =
     (case authenticate w lg pw c of (r, c') \<Rightarrow> (map_sum id Session r, c'))"
| "step w GetStudentInfo c =
     (case get_student_info w c of (r, c') \<Rightarrow> (map_sum id Student r, c'))"
| "step w Close c = (Inr NoValue, close c)"

fun run :: "world \<Rightarrow> op list \<Rightarrow> client \<Rightarrow> client" where
  "run w [] c = c"
| "run w (x # xs) c = run w xs (snd (step w x c))"

text \<open>The kinds of error of the specification.\<close>

fun is_authentication :: "exn \<Rightarrow> bool" where
  "is_authentication (AuthenticationError m) = True"
| "is_authentication e = False"

fun is_network :: "exn \<Rightarrow> bool" where
  "is_network (NetworkError m) = True"
| "is_network e = False"

fun is_parse :: "exn \<Rightarrow> bool" where
  "is_parse (ParseError m) = True"
| "is_parse e = False"

fun is_session_expired :: "exn \<Rightarrow> bool" where
  "is_session_expired (SessionExpiredError m) = True"
| "is_session_expired e = False"

fun is_validation :: "exn \<Rightarrow> bool" where
  "is_validation (ValidationError es) = True"
| "is_validation e = False"

section \<open>Example worlds\<close>

text \<open>A server that answers every request with status 500.\<close>

definition server_500 :: world where
  "server_500 =
     \<lparr>respond = (\<lambda>h rq. Responded
         \<lparr>status = 500, reason = u ''Internal Server Error'', body = [], url = req_url rq,
          headers = Map.empty\<rparr>),
      BeautifulSoup = (\<lambda>t. \<lparr>csrf_meta = None, person_name = None, person_labels = []\<rparr>),
      validation_str = (\<lambda>es. u ''validation error'')\<rparr>"

definition get_request :: "pystr \<Rightarrow> request" where
  "get_request target =
     \<lparr>http_method = u ''GET'', req_url = target, form_data = None, allow_redirects = True\<rparr>"

text \<open>
  A portal whose login page carries the token \<open>tok\<close>, that answers the login POST with
  status 302 and the \<open>Location\<close> header \<open>loc\<close>, and whose profile fetch ends at the URL
  \<open>final\<close> with a page that parses to \<open>profile\<close>.
\<close>

definition portal :: "pystr \<Rightarrow> pystr \<Rightarrow> soup \<Rightarrow> world" where
  "portal loc final profile =
     \<lparr>respond = (\<lambda>h rq.
         if http_method rq = u ''POST''
         then Responded \<lparr>status = 302, reason = u ''Found'', body = [], url = req_url rq,
                          headers = [u ''Location'' \<mapsto> loc]\<rparr>
         else if req_url rq = AUTH_URL
         then Responded \<lparr>status = 200, reason = u ''OK'', body = u ''login'', url = req_url rq,
                          headers = Map.empty\<rparr>
         else Responded \<lparr>status = 200, reason = u ''OK'', body = u ''profile'', url = final,
                          headers = Map.empty\<rparr>),
      BeautifulSoup = (\<lambda>t.
         if t = u ''login''
         then \<lparr>csrf_meta = Some (Some (u ''tok'')), person_name = None, person_labels = []\<rparr>
         else profile),
      validation_str = (\<lambda>es. u ''validation error'')\<rparr>"

text \<open>
  A profile page with every caption and a value beside it, and the same page without
  the caption of the course.
\<close>

definition full_labels :: "(pystr option \<times> pystr option) list" where
  "full_labels =
     [(Some lbl_record_book_number, Some (u ''12345678'')),
      (Some lbl_study_form, Some (u ''full-time'')),
      (Some lbl_preparation_level, Some (u ''bachelor'')),
      (Some lbl_specialization, Some (u ''IT'')),
      (Some lbl_specialty, Some (u ''09.03.01'')),
      (Some lbl_faculty, Some (u ''IT'')),
      (Some lbl_course, Some (u ''3'')),
      (Some lbl_group, Some (u ''IT-21-1'')),
      (Some lbl_financing_form, Some (u ''budget'')),
      (Some lbl_dormitory, Some (u ''yes'')),
      (Some lbl_end_date, Some (u ''2025-06-30'')),
      (Some lbl_personal_email, Some (u ''ivanov@example.com'')),
      (Some lbl_personal_phone, Some (u ''+7 (999) 123-45-67'')),
      (Some lbl_corporate_email, Some (u ''ivanov@student.misis.ru''))]"

definition full_profile :: soup where
  "full_profile =
     \<lparr>csrf_meta = None, person_name = Some (Some (u ''Ivanov Ivan'')),
      person_labels = full_labels\<rparr>"

definition profile_without_course :: soup where
  "profile_without_course =
     \<lparr>csrf_meta = None, person_name = Some (Some (u ''Ivanov Ivan'')),
      person_labels = filter (\<lambda>(s, v). s \<noteq> Some lbl_course) full_labels\<rparr>"

text \<open>
  The login POST that \<open>authenticate\<close> sends to the portal for the login \<open>lg\<close> (already
  trimmed) and the password \<open>pw\<close>; the session that the portal's redirect to
  \<open>/ru/s/12345\<close> yields; a portal that keeps the session alive and one whose profile
  fetch ends on the sign-in page.
\<close>

definition login_request :: "pystr \<Rightarrow> pystr \<Rightarrow> request" where
  "login_request lg pw =
     \<lparr>http_method = u ''POST'', req_url = AUTH_URL,
      form_data = Some (auth_payload \<lparr>login = lg, password = pw, remember_me = False\<rparr> (u ''tok'')),
      allow_redirects = False\<rparr>"

definition demo_session :: session_info where
  "demo_session = \<lparr>api_id = u ''s'', csrf_token = u ''tok'', is_authenticated = True\<rparr>"

definition good_portal :: world where
  "good_portal = portal (u ''/ru/s/12345'') (BASE_URL @ u ''/ru/s/profile'') full_profile"

definition lapsed_portal :: world where
  "lapsed_portal = portal (u ''/ru/s/12345'') AUTH_URL full_profile"

definition logged_in :: client where
  "logged_in =
     (MisisClient 3 False)
       \<lparr>http_session := True,
        requests := [get_request AUTH_URL, login_request (u ''user'') (u ''secret'')],
        session_info := Some demo_session\<rparr>"

text \<open>
  The profile fetch of the logged-in client, and the client after a profile fetch that
  ended on the sign-in page.
\<close>

definition profile_request :: request where
  "profile_request = get_request (BASE_URL @ u ''/ru/'' @ api_id demo_session @ u ''/profile'')"

definition lapsed :: client where
  "lapsed =
     logged_in
       \<lparr>requests := requests logged_in @ [profile_request],
        session_info := Some (demo_session\<lparr>is_authenticated := False\<rparr>)\<rparr>"

text \<open>
  The invariant of the specification on the session a client holds: when its flag is
  set, its account identifier and its token are not empty.
\<close>

definition session_invariant :: "client \<Rightarrow> bool" where
  "session_invariant c =
     (case session_info c of
        None \<Rightarrow> True
      | Some si \<Rightarrow> is_authenticated si \<longrightarrow> api_id si \<noteq> [] \<and> csrf_token si \<noteq> [])"

text \<open>
  The failures a validated value carries, and a profile page whose personal e-mail has
  no \<open>@\<close>.
\<close>

definition errors_of :: "'a validated \<Rightarrow> (pystr \<times> pystr) list" where
  "errors_of r = (case r of Inl es \<Rightarrow> es | Inr v \<Rightarrow> [])"

definition bad_email_profile :: soup where
  "bad_email_profile =
     \<lparr>csrf_meta = None, person_name = Some (Some (u ''Ivanov Ivan'')),
      person_labels = (Some lbl_personal_email, Some (u ''ivanov.example.com'')) # full_labels\<rparr>"

text \<open>
  The keyword arguments collected from the full profile page, with the personal e-mail
  replaced by an empty string and by a string without \<open>@\<close>.
\<close>

definition empty_email_data :: "pystr \<rightharpoonup> pystr option" where
  "empty_email_data = (collect_data full_profile)(u ''personal_email'' \<mapsto> Some [])"

definition bad_email_data :: "pystr \<rightharpoonup> pystr option" where
  "bad_email_data = (collect_data full_profile)(u ''personal_email'' \<mapsto> Some (u ''nobody''))"

text \<open>
  A portal whose profile page has a personal e-mail without \<open>@\<close>, and a network on
  which every request ends in an exception that is not an \<open>aiohttp.ClientError\<close>.
\<close>

definition bad_email_portal :: world where
  "bad_email_portal = portal (u ''/ru/s/12345'') (BASE_URL @ u ''/ru/s/profile'') bad_email_profile"

definition server_timeout :: world where
  "server_timeout =
     \<lparr>respond = (\<lambda>h rq. Raised (u ''timeout'')),
      BeautifulSoup = (\<lambda>t. \<lparr>csrf_meta = None, person_name = None, person_labels = []\<rparr>),
      validation_str = (\<lambda>es. u ''validation error'')\<rparr>"

text \<open>The full profile page without the captions of the faculty and of the course.\<close>

definition profile_without_faculty_course :: soup where
  "profile_without_faculty_course =
     \<lparr>csrf_meta = None, person_name = Some (Some (u ''Ivanov Ivan'')),
      person_labels =
        filter (\<lambda>(s, v). s \<noteq> Some lbl_faculty \<and> s \<noteq> Some lbl_course) full_labels\<rparr>"

section \<open>The transport: retries and backoff\<close>

lemma upt_nat_3: "[0..<nat 3] = [0, 1, 2]"
  by (simp add: upt_rec)

lemma upt_0_3: "[0..<3] = [0, 1, 2]"
  by (simp add: upt_rec)

text \<open>
  Claim C5. With \<open>max_retries = 3\<close> and a server that answers every request with a status
  of 400 or more, \<open>_make_request\<close> issues exactly three requests and raises a Network
  error with the status and reason of the last response, having slept \<open>2 ^ 0\<close> and then
  \<open>2 ^ 1\<close> between the attempts, delays that do not decrease. An attempt that gets a
  response with a status below 400 returns it at once, with no further request and no
  sleep.
\<close>

theorem make_request_retries:
  "(max_retries c = 3 \<and> (\<forall>h. \<exists>r. respond w h rq = Responded r \<and> status r \<ge> 400) \<longrightarrow>
      (\<exists>r c'. respond w (requests c @ [rq, rq]) rq = Responded r \<and>
           make_request w rq c =
             (Inl (NetworkError (u ''HTTP '' @ str_int (status r) @ u '': '' @ reason r)), c') \<and>
           requests c' = requests c @ [rq, rq, rq] \<and>
           sleeps c' = sleeps c @ [2 ^ 0, 2 ^ 1] \<and> sorted [2 ^ 0, 2 ^ 1 :: nat]))
   \<and> (\<forall>r a rest. respond w (requests c) rq = Responded r \<and> status r < 400 \<longrightarrow>
         attempts w rq (a # rest) c =
           (Inr (status r, body r, url r, headers r), c\<lparr>requests := requests c @ [rq]\<rparr>))"
proof (intro conjI impI allI)
  assume a: "max_retries c = 3 \<and> (\<forall>h. \<exists>r. respond w h rq = Responded r \<and> status r \<ge> 400)"
  then have mr: "max_retries c = 3"
    and all: "\<And>h. \<exists>r. respond w h rq = Responded r \<and> status r \<ge> 400"
    by auto
  define c0 where "c0 = get_session c"
  have c0: "max_retries c0 = 3" "requests c0 = requests c" "sleeps c0 = sleeps c"
    by (simp_all add: c0_def get_session_def mr)
  obtain r1 where r1: "respond w (requests c) rq = Responded r1" "status r1 \<ge> 400"
    using all by blast
  obtain r2 where r2: "respond w (requests c @ [rq]) rq = Responded r2" "status r2 \<ge> 400"
    using all by blast
  obtain r3 where r3: "respond w (requests c @ [rq, rq]) rq = Responded r3" "status r3 \<ge> 400"
    using all by blast
  have "make_request w rq c =
      (Inl (NetworkError (u ''HTTP '' @ str_int (status r3) @ u '': '' @ reason r3)),
       c0\<lparr>requests := requests c @ [rq, rq, rq], sleeps := sleeps c @ [2 ^ 0, 2 ^ 1]\<rparr>)"
    unfolding make_request_def mr upt_nat_3 c0_def[symmetric]
    using r1 r2 r3 c0 by simp
  then show "\<exists>r c'. respond w (requests c @ [rq, rq]) rq = Responded r \<and>
           make_request w rq c =
             (Inl (NetworkError (u ''HTTP '' @ str_int (status r) @ u '': '' @ reason r)), c') \<and>
           requests c' = requests c @ [rq, rq, rq] \<and>
           sleeps c' = sleeps c @ [2 ^ 0, 2 ^ 1] \<and> sorted [2 ^ 0, 2 ^ 1 :: nat]"
    using r3 by simp
next
  fix r a rest
  assume "respond w (requests c) rq = Responded r \<and> status r < 400"
  then show "attempts w rq (a # rest) c =
           (Inr (status r, body r, url r, headers r), c\<lparr>requests := requests c @ [rq]\<rparr>)"
    by simp
qed

theorem make_request_retries_witness:
  "max_retries (MisisClient 3 False) = 3 \<and>
   (\<forall>h. \<exists>r. respond server_500 h (get_request AUTH_URL) = Responded r \<and> status r \<ge> 400) \<and>
   fst (make_request server_500 (get_request AUTH_URL) (MisisClient 3 False)) =
     Inl (NetworkError (u ''HTTP 500: Internal Server Error'')) \<and>
   requests (snd (make_request server_500 (get_request AUTH_URL) (MisisClient 3 False))) =
     [get_request AUTH_URL, get_request AUTH_URL, get_request AUTH_URL] \<and>
   sleeps (snd (make_request server_500 (get_request AUTH_URL) (MisisClient 3 False))) = [1, 2] \<and>
   (\<exists>r. respond (portal [] [] full_profile) (requests (MisisClient 3 False))
          (get_request AUTH_URL) = Responded r \<and> status r < 400) \<and>
   make_request (portal [] [] full_profile) (get_request AUTH_URL) (MisisClient 3 False) =
     ((Inr (200, u ''login'', AUTH_URL, Map.empty)),
      (MisisClient 3 False)\<lparr>http_session := True, requests := [get_request AUTH_URL]\<rparr>)"
proof -
  have h1: "max_retries (MisisClient 3 False) = 3"
    by (simp add: MisisClient_def)
  have h2: "\<forall>h. \<exists>r. respond server_500 h (get_request AUTH_URL) = Responded r \<and> status r \<ge> 400"
    by (simp add: server_500_def)
  have h3: "respond (portal [] [] full_profile) (requests (get_session (MisisClient 3 False)))
      (get_request AUTH_URL) =
      Responded \<lparr>status = 200, reason = u ''OK'', body = u ''login'', url = AUTH_URL,
                 headers = Map.empty\<rparr>"
    by (simp add: portal_def get_request_def)
  have s500: "respond server_500
      (requests (MisisClient 3 False) @ [get_request AUTH_URL, get_request AUTH_URL])
      (get_request AUTH_URL) =
      Responded \<lparr>status = 500, reason = u ''Internal Server Error'', body = [], url = AUTH_URL,
                 headers = Map.empty\<rparr>"
    by (simp add: server_500_def get_request_def)
  have str: "str_int 500 = u ''500''"
    by (simp add: str_int_def)
  have a: "fst (make_request server_500 (get_request AUTH_URL) (MisisClient 3 False)) =
     Inl (NetworkError (u ''HTTP 500: Internal Server Error'')) \<and>
   requests (snd (make_request server_500 (get_request AUTH_URL) (MisisClient 3 False))) =
     [get_request AUTH_URL, get_request AUTH_URL, get_request AUTH_URL] \<and>
   sleeps (snd (make_request server_500 (get_request AUTH_URL) (MisisClient 3 False))) = [1, 2]"
    using make_request_retries [of "MisisClient 3 False" server_500 "get_request AUTH_URL"]
      h1 h2 s500
    by (auto simp: str MisisClient_def)
  have b: "make_request (portal [] [] full_profile) (get_request AUTH_URL) (MisisClient 3 False) =
     ((Inr (200, u ''login'', AUTH_URL, Map.empty)),
      (MisisClient 3 False)\<lparr>http_session := True, requests := [get_request AUTH_URL]\<rparr>)"
    using h3 by (simp add: make_request_def upt_0_3 MisisClient_def get_session_def)
  show ?thesis
    using h1 h2 h3 a b by (simp add: get_session_def MisisClient_def)
qed

section \<open>Which errors the layers raise, and what they do to the session\<close>

lemma attempts_session_info:
  "attempts w rq xs c = (r, c') \<Longrightarrow> session_info c' = session_info c"
proof (induction xs arbitrary: c)
  case Nil
  then show ?case by simp
next
  case (Cons a xs)
  show ?case
  proof (cases "respond w (requests c) rq")
    case (Responded rs)
    with Cons.prems Cons.IH show ?thesis
      by (fastforce simp: Let_def split: if_splits)
  next
    case (ClientError m)
    with Cons.prems Cons.IH show ?thesis
      by (fastforce simp: Let_def split: if_splits)
  next
    case (Raised m)
    with Cons.prems show ?thesis
      by (auto simp: Let_def)
  qed
qed

lemma attempts_error:
  "attempts w rq xs c = (Inl e, c') \<Longrightarrow> is_network e \<or> (\<exists>m. e = OtherException m)"
proof (induction xs arbitrary: c)
  case Nil
  then show ?case by auto
next
  case (Cons a xs)
  show ?case
  proof (cases "respond w (requests c) rq")
    case (Responded rs)
    with Cons.prems Cons.IH show ?thesis
      by (fastforce simp: Let_def split: if_splits)
  next
    case (ClientError m)
    with Cons.prems Cons.IH show ?thesis
      by (fastforce simp: Let_def split: if_splits)
  next
    case (Raised m)
    with Cons.prems show ?thesis
      by (auto simp: Let_def)
  qed
qed

lemma make_request_session_info:
  "make_request w rq c = (r, c') \<Longrightarrow> session_info c' = session_info c"
  by (auto simp: make_request_def get_session_def dest: attempts_session_info split: if_splits)

lemma make_request_error:
  "make_request w rq c = (Inl e, c') \<Longrightarrow> is_network e \<or> (\<exists>m. e = OtherException m)"
  unfolding make_request_def by (rule attempts_error)

lemma get_csrf_token_session_info:
  "get_csrf_token w c = (r, c') \<Longrightarrow> session_info c' = session_info c"
  by (auto simp: get_csrf_token_def dest: make_request_session_info
      split: prod.splits sum.splits option.splits if_splits)

lemma csrf_except_kind: "is_network (csrf_except w e) \<or> is_parse (csrf_except w e)"
  by (cases e) simp_all

lemma csrf_except_fixed: "is_network e \<or> is_parse e \<Longrightarrow> csrf_except w e = e"
  by (cases e) simp_all

lemma get_csrf_token_error:
  "get_csrf_token w c = (Inl e, c') \<Longrightarrow> is_network e \<or> is_parse e"
  using csrf_except_kind [of w]
  by (auto simp: get_csrf_token_def split: prod.splits sum.splits option.splits if_splits)

lemma authenticate_except_kind:
  "is_authentication (authenticate_except w e) \<or> is_network (authenticate_except w e) \<or>
   is_parse (authenticate_except w e)"
  by (cases e) simp_all

lemma authenticate_except_fixed:
  "is_network e \<or> is_parse e \<or> is_authentication e \<Longrightarrow> authenticate_except w e = e"
  by (cases e) simp_all

lemma student_info_except_kind:
  "is_session_expired (student_info_except w e) \<or> is_network (student_info_except w e) \<or>
   is_parse (student_info_except w e)"
  by (cases e) simp_all

lemma student_info_except_fixed:
  "is_network e \<or> is_parse e \<or> is_session_expired e \<Longrightarrow> student_info_except w e = e"
  by (cases e) simp_all

lemma parse_except_kind: "is_parse (parse_except w e)"
  by (cases e) simp_all

lemma model_result_error: "model_result r = Inl e \<Longrightarrow> is_validation e"
  by (auto simp: model_result_def split: sum.splits)

lemma AuthenticationData_error: "AuthenticationData lg pw = Inl e \<Longrightarrow> is_validation e"
  unfolding AuthenticationData_def by (rule model_result_error)

lemma StudentInfo_error: "StudentInfo kw = Inl e \<Longrightarrow> is_validation e"
  unfolding StudentInfo_def by (rule model_result_error)

lemma SessionInfo_error: "SessionInfo a t b = Inl e \<Longrightarrow> is_validation e"
  unfolding SessionInfo_def by (rule model_result_error)

lemma authenticate_error:
  "authenticate w lg pw c = (Inl e, c') \<Longrightarrow>
   is_validation e \<or> is_authentication e \<or> is_network e \<or> is_parse e"
  using authenticate_except_kind [of w]
  by (auto simp: authenticate_def dest: AuthenticationData_error 
      split: prod.splits sum.splits)

lemma authenticate_failure_session_info:
  "authenticate w lg pw c = (Inl e, c') \<Longrightarrow> session_info c' = session_info c"
  by (auto simp: authenticate_def
      dest!: make_request_session_info get_csrf_token_session_info
      split: prod.splits sum.splits)

lemma parse_student_info_error: "parse_student_info w html = Inl e \<Longrightarrow> is_parse e"
  using parse_except_kind [of w]
  by (auto simp: parse_student_info_def build_student_info_def split: option.splits sum.splits)

lemma get_student_info_error:
  "get_student_info w c = (Inl e, c') \<Longrightarrow> is_session_expired e \<or> is_network e \<or> is_parse e"
  using student_info_except_kind [of w]
  by (auto simp: get_student_info_def split: option.splits if_splits prod.splits sum.splits)

section \<open>Credentials\<close>

lemma AuthenticationData_valid:
  "py_strip lg \<noteq> [] \<Longrightarrow> pw \<noteq> [] \<Longrightarrow>
   AuthenticationData lg pw = Inr \<lparr>login = py_strip lg, password = pw, remember_me = False\<rparr>"
  by (auto simp: AuthenticationData_def model_result_def validated_field_def validate_login_def
      validate_password_def py_strip_def)

lemma AuthenticationData_invalid:
  "py_strip lg = [] \<or> pw = [] \<Longrightarrow> \<exists>es. AuthenticationData lg pw = Inl (ValidationError es)"
  by (auto simp: AuthenticationData_def model_result_def validated_field_def validate_login_def
      validate_password_def)

text \<open>
  Claim C2, as amended. A login that is empty after trimming, or a password that is
  empty, makes \<open>authenticate\<close> raise pydantic's \<open>ValidationError\<close> with the client
  unchanged, so before any request is issued. The login is trimmed and then checked,
  and stored trimmed; the password is checked for emptiness only and stored as given,
  so a password of whitespace passes the check.
\<close>

theorem authenticate_rejects_empty_credentials:
  "(py_strip lg = [] \<or> pw = [] \<longrightarrow>
      (\<exists>es. authenticate w lg pw c = (Inl (ValidationError es), c))) \<and>
   (py_strip lg \<noteq> [] \<and> pw \<noteq> [] \<longrightarrow>
      AuthenticationData lg pw =
        Inr \<lparr>login = py_strip lg, password = pw, remember_me = False\<rparr>)"
proof (intro conjI impI)
  assume "py_strip lg = [] \<or> pw = []"
  then obtain es where "AuthenticationData lg pw = Inl (ValidationError es)"
    using AuthenticationData_invalid by blast
  then show "\<exists>es. authenticate w lg pw c = (Inl (ValidationError es), c)"
    by (simp add: authenticate_def)
next
  assume "py_strip lg \<noteq> [] \<and> pw \<noteq> []"
  then show "AuthenticationData lg pw =
        Inr \<lparr>login = py_strip lg, password = pw, remember_me = False\<rparr>"
    by (simp add: AuthenticationData_valid)
qed

lemma strip_spaces: "py_strip (u ''  '') = []"
  by (simp add: py_strip_def isspace_def)

lemma strip_user: "py_strip (u '' user '') = u ''user''"
  by (simp add: py_strip_def isspace_def)

theorem authenticate_rejects_empty_credentials_witness:
  "py_strip (u ''  '') = [] \<and>
   fst (authenticate server_500 (u ''  '') (u ''secret'') (MisisClient 3 False)) =
     Inl (ValidationError [(u ''login'', msg_login_empty)]) \<and>
   snd (authenticate server_500 (u ''  '') (u ''secret'') (MisisClient 3 False)) =
     MisisClient 3 False \<and>
   py_strip (u '' user '') \<noteq> [] \<and> u '' '' \<noteq> [] \<and>
   AuthenticationData (u '' user '') (u '' '') =
     Inr \<lparr>login = u ''user'', password = u '' '', remember_me = False\<rparr>"
proof -
  have a: "AuthenticationData (u ''  '') (u ''secret'') =
      Inl (ValidationError [(u ''login'', msg_login_empty)])"
    by (simp add: AuthenticationData_def model_result_def validated_field_def validate_login_def
        validate_password_def py_strip_def isspace_def)
  have b: "fst (authenticate server_500 (u ''  '') (u ''secret'') (MisisClient 3 False)) =
     Inl (ValidationError [(u ''login'', msg_login_empty)]) \<and>
   snd (authenticate server_500 (u ''  '') (u ''secret'') (MisisClient 3 False)) =
     MisisClient 3 False"
    using authenticate_rejects_empty_credentials
      [of "u ''  ''" "u ''secret''" server_500 "MisisClient 3 False"] strip_spaces a
    by (auto simp: authenticate_def)
  have c: "AuthenticationData (u '' user '') (u '' '') =
     Inr \<lparr>login = u ''user'', password = u '' '', remember_me = False\<rparr>"
    using authenticate_rejects_empty_credentials
      [of "u '' user ''" "u '' ''" server_500 "MisisClient 3 False"] strip_user
    by (simp add: py_strip_def isspace_def)
  show ?thesis
    using b c by (simp add: py_strip_def isspace_def)
qed

section \<open>The login reply\<close>

lemma get_session_eq: "get_session c = c\<lparr>http_session := True\<rparr>"
  by (cases c) (simp add: get_session_def)

lemma portal_get_csrf_token:
  "max_retries c = 3 \<Longrightarrow>
   get_csrf_token (portal loc final profile) c =
     (Inr (u ''tok''), c\<lparr>http_session := True, requests := requests c @ [get_request AUTH_URL]\<rparr>)"
  by (simp add: get_csrf_token_def make_request_def upt_0_3 get_session_eq
      portal_def get_request_def)

lemma portal_authenticate:
  assumes "max_retries c = 3" and "py_strip lg \<noteq> []" and "pw \<noteq> []"
  shows "authenticate (portal loc final profile) lg pw c =
     (case check_login_reply (302, [], AUTH_URL, [u ''Location'' \<mapsto> loc]) (u ''tok'') of
        Inl e \<Rightarrow>
          (Inl (authenticate_except (portal loc final profile) e),
           c\<lparr>http_session := True,
             requests := requests c @ [get_request AUTH_URL, login_request (py_strip lg) pw]\<rparr>)
      | Inr si \<Rightarrow>
          (Inr si,
           c\<lparr>http_session := True,
             requests := requests c @ [get_request AUTH_URL, login_request (py_strip lg) pw],
             session_info := Some si\<rparr>))"
proof -
  have post: "make_request (portal loc final profile) (login_request (py_strip lg) pw)
      (c\<lparr>http_session := True, requests := requests c @ [get_request AUTH_URL]\<rparr>) =
      (Inr (302, [], AUTH_URL, [u ''Location'' \<mapsto> loc]),
       c\<lparr>http_session := True,
         requests := requests c @ [get_request AUTH_URL, login_request (py_strip lg) pw]\<rparr>)"
    using assms(1)
    by (simp add: make_request_def upt_0_3 get_session_eq portal_def login_request_def)
  show ?thesis
    unfolding authenticate_def AuthenticationData_valid [OF assms(2,3)]
      portal_get_csrf_token [OF assms(1)]
    using post by (simp add: login_request_def split: sum.splits)
qed

lemma check_login_reply_s:
  "check_login_reply (302, [], ur, [u ''Location'' \<mapsto> u ''/ru/s/12345'']) (u ''tok'') =
     Inr \<lparr>api_id = u ''s'', csrf_token = u ''tok'', is_authenticated = True\<rparr>"
  by (simp add: check_login_reply_def py_index_def py_split_def SessionInfo_def model_result_def
      validated_field_def validate_api_id_def validate_csrf_token_def py_strip_def isspace_def
      msg_bad_credentials_def)

lemma check_login_reply_sign_in:
  "check_login_reply (302, [], ur, [u ''Location'' \<mapsto> u ''/ru/sign_in'']) (u ''tok'') =
     Inr \<lparr>api_id = u ''sign_in'', csrf_token = u ''tok'', is_authenticated = True\<rparr>"
  by (simp add: check_login_reply_def py_index_def py_split_def SessionInfo_def model_result_def
      validated_field_def validate_api_id_def validate_csrf_token_def py_strip_def isspace_def
      msg_bad_credentials_def)

text \<open>
  Claim C1, at the input where the code departs from it. The portal answers the login
  POST with status 302 and \<open>Location: /ru/sign_in\<close>. The marker \<open>/s\<close> occurs in
  \<open>/sign_in\<close>, so every check passes and \<open>authenticate\<close> returns an authenticated
  session whose account identifier is \<open>sign_in\<close>, where the claim has an Authentication
  error.
\<close>

theorem authenticate_accepts_sign_in_redirect:
  "fst (authenticate (portal (u ''/ru/sign_in'') [] full_profile) (u ''user'') (u ''secret'')
         (MisisClient 3 False)) =
     Inr \<lparr>api_id = u ''sign_in'', csrf_token = u ''tok'', is_authenticated = True\<rparr>"
proof -
  have h: "max_retries (MisisClient 3 False) = 3" "py_strip (u ''user'') \<noteq> []"
    "u ''secret'' \<noteq> []"
    by (simp_all add: MisisClient_def py_strip_def isspace_def)
  show ?thesis
    unfolding portal_authenticate [OF h] check_login_reply_sign_in by simp
qed

text \<open>
  What holds of the checks on the login reply: without a \<open>Location\<close> header, or with an
  empty one, the reply is refused with the Authentication error of bad credentials; an
  accepted reply has a \<open>Location\<close> that contains \<open>/s\<close> and \<open>/ru/\<close>, a status of 302 or
  200 and a body without the failure phrase, and the redirect to \<open>/ru/s/12345\<close> gives
  the account identifier \<open>s\<close>.
\<close>

lemma check_login_reply_no_location:
  "hdrs (u ''Location'') = None \<or> hdrs (u ''Location'') = Some [] \<Longrightarrow>
   check_login_reply (st, txt, ur, hdrs) tok = Inl (AuthenticationError msg_bad_credentials)"
  by (auto simp: check_login_reply_def)

lemma SessionInfo_Inr:
  "SessionInfo a t b = Inr si \<Longrightarrow>
   si = \<lparr>api_id = py_strip a, csrf_token = py_strip t, is_authenticated = b\<rparr> \<and>
   py_strip a \<noteq> [] \<and> py_strip t \<noteq> []"
  by (auto simp: SessionInfo_def model_result_def validated_field_def validate_api_id_def
      validate_csrf_token_def split: if_splits sum.splits)

lemma split_from_length: "1 < length (split_from sep cur s) \<Longrightarrow> str_in sep s"
  by (induction sep cur s rule: split_from.induct) (auto split: if_splits)

lemma check_login_reply_accepts:
  assumes "check_login_reply (st, txt, ur, hdrs) tok = Inr si"
  shows "(\<exists>loc. hdrs (u ''Location'') = Some loc \<and> loc \<noteq> [] \<and> str_in (u ''/s'') loc \<and>
          str_in (u ''/ru/'') loc) \<and>
   st \<in> {302, 200} \<and> \<not> str_in msg_bad_credentials txt \<and>
   is_authenticated si \<and> api_id si \<noteq> [] \<and> csrf_token si = py_strip tok \<and> csrf_token si \<noteq> []"
proof -
  obtain loc where loc: "hdrs (u ''Location'') = Some loc" "loc \<noteq> []"
    using assms by (auto simp: check_login_reply_def split: option.splits if_splits)
  have marker: "str_in (u ''/s'') loc" and st: "st \<in> {302, 200}"
    and phrase: "\<not> str_in msg_bad_credentials txt"
    using assms loc by (auto simp: check_login_reply_def split: if_splits)
  obtain rest a where rest: "py_index (py_split loc (u ''/ru/'')) 1 = Some rest"
    and a: "SessionInfo a tok True = Inr si"
    using assms loc marker st phrase
    by (auto simp: check_login_reply_def split: if_splits option.splits)
  have "1 < length (split_from (u ''/ru/'') [] loc)"
    using rest by (auto simp: py_index_def py_split_def split: if_splits)
  then have "str_in (u ''/ru/'') loc"
    by (rule split_from_length)
  then show ?thesis
    using loc marker st phrase SessionInfo_Inr [OF a] by auto
qed

lemma portal_authenticate_demo:
  assumes "max_retries c = 3"
  shows "authenticate (portal (u ''/ru/s/12345'') final profile) (u ''user'') (u ''secret'') c =
     (Inr demo_session,
      c\<lparr>http_session := True,
        requests := requests c @ [get_request AUTH_URL, login_request (u ''user'') (u ''secret'')],
        session_info := Some demo_session\<rparr>)"
proof -
  have h: "py_strip (u ''user'') \<noteq> []" "u ''secret'' \<noteq> []"
    by (simp_all add: py_strip_def isspace_def)
  have s: "py_strip (u ''user'') = u ''user''"
    by (simp add: py_strip_def isspace_def)
  show ?thesis
    unfolding portal_authenticate [OF assms h] check_login_reply_s s demo_session_def by simp
qed

lemma logged_in_eq:
  "authenticate good_portal (u ''user'') (u ''secret'') (MisisClient 3 False) =
     (Inr demo_session, logged_in)"
  unfolding good_portal_def logged_in_def
  by (subst portal_authenticate_demo) (simp_all add: MisisClient_def)

text \<open>
  Claim C2 as stated fails for a password that is empty only after trimming: with the
  password \<open>" "\<close> the client fetches the token, posts the login and is given a
  session.
\<close>

theorem authenticate_blank_password_counterexample:
  "py_strip (u '' '') = [] \<and>
   fst (authenticate good_portal (u ''user'') (u '' '') (MisisClient 3 False)) = Inr demo_session \<and>
   requests (snd (authenticate good_portal (u ''user'') (u '' '') (MisisClient 3 False))) =
     [get_request AUTH_URL, login_request (u ''user'') (u '' '')]"
proof -
  have h: "max_retries (MisisClient 3 False) = 3" "py_strip (u ''user'') \<noteq> []" "u '' '' \<noteq> []"
    by (simp_all add: MisisClient_def py_strip_def isspace_def)
  have s: "py_strip (u ''user'') = u ''user''"
    by (simp add: py_strip_def isspace_def)
  have "authenticate good_portal (u ''user'') (u '' '') (MisisClient 3 False) =
     (Inr demo_session,
      (MisisClient 3 False)\<lparr>http_session := True,
        requests := requests (MisisClient 3 False) @
          [get_request AUTH_URL, login_request (u ''user'') (u '' '')],
        session_info := Some demo_session\<rparr>)"
    unfolding good_portal_def portal_authenticate [OF h] check_login_reply_s s demo_session_def
    by simp
  then show ?thesis
    by (simp add: MisisClient_def py_strip_def isspace_def)
qed


section \<open>What the operations do to the session\<close>

lemma close_session_info: "session_info (close c) = session_info c"
  by (simp add: close_def)

lemma aenter_session_info: "session_info (aenter c) = session_info c"
  by (simp add: aenter_def)

lemma authenticate_success_session:
  assumes "authenticate w lg pw c = (Inr si, c')"
  shows "session_info c' = Some si \<and> is_authenticated si \<and> api_id si \<noteq> [] \<and>
         csrf_token si \<noteq> []"
proof -
  obtain rp tok where rp: "check_login_reply rp tok = Inr si" and s: "session_info c' = Some si"
    using assms by (auto simp: authenticate_def split: prod.splits sum.splits)
  obtain st bd ur hdrs where "rp = (st, bd, ur, hdrs)"
    by (cases rp)
  with rp have "is_authenticated si \<and> api_id si \<noteq> [] \<and> csrf_token si \<noteq> []"
    using check_login_reply_accepts [of st bd ur hdrs tok si] by blast
  with s show ?thesis
    by blast
qed

lemma get_student_info_session_info:
  assumes "get_student_info w c = (r, c')"
  shows "session_info c' = session_info c \<or>
    (\<exists>si. session_info c = Some si \<and> is_authenticated si \<and>
          session_info c' = Some (si\<lparr>is_authenticated := False\<rparr>) \<and>
          r = Inl (SessionExpiredError msg_session_expired))"
  using assms
  by (auto simp: get_student_info_def dest!: make_request_session_info
      split: option.splits if_splits prod.splits sum.splits)

lemma get_student_info_unauthenticated:
  "\<not> client_is_authenticated c \<Longrightarrow>
   get_student_info w c = (Inl (SessionExpiredError msg_need_auth), c)"
  by (auto simp: get_student_info_def client_is_authenticated_def split: option.splits)

lemma step_session_info:
  "session_info (snd (step w x c)) = session_info c \<or>
   (\<exists>lg pw si. x = Authenticate lg pw \<and> fst (step w x c) = Inr (Session si) \<and>
       session_info (snd (step w x c)) = Some si \<and> is_authenticated si \<and>
       api_id si \<noteq> [] \<and> csrf_token si \<noteq> []) \<or>
   (\<exists>si. x = GetStudentInfo \<and> session_info c = Some si \<and> is_authenticated si \<and>
       session_info (snd (step w x c)) = Some (si\<lparr>is_authenticated := False\<rparr>) \<and>
       fst (step w x c) = Inl (SessionExpiredError msg_session_expired))"
proof (cases x)
  case Enter
  then show ?thesis by (simp add: aenter_session_info)
next
  case (Authenticate lg pw)
  obtain r c' where a: "authenticate w lg pw c = (r, c')"
    by (cases "authenticate w lg pw c")
  show ?thesis
  proof (cases r)
    case (Inl e)
    with a Authenticate show ?thesis
      by (simp add: authenticate_failure_session_info)
  next
    case (Inr si)
    with a Authenticate authenticate_success_session [of w lg pw c si c'] show ?thesis
      by simp
  qed
next
  case GetStudentInfo
  obtain r c' where a: "get_student_info w c = (r, c')"
    by (cases "get_student_info w c")
  with GetStudentInfo get_student_info_session_info [OF a] show ?thesis
    by auto
next
  case Close
  then show ?thesis by (simp add: close_session_info)
qed

section \<open>The life of a session\<close>

lemma logged_in_facts:
  "max_retries logged_in = 3" "session_info logged_in = Some demo_session"
  "client_is_authenticated logged_in"
  by (simp_all add: logged_in_def MisisClient_def client_is_authenticated_def demo_session_def)

lemma portal_authenticate_refused:
  assumes "max_retries c = 3"
  shows "authenticate (portal [] final profile) (u ''user'') (u ''secret'') c =
     (Inl (AuthenticationError msg_bad_credentials),
      c\<lparr>http_session := True,
        requests := requests c @ [get_request AUTH_URL, login_request (u ''user'') (u ''secret'')]\<rparr>)"
proof -
  have h: "py_strip (u ''user'') \<noteq> []" "u ''secret'' \<noteq> []"
    by (simp_all add: py_strip_def isspace_def)
  have s: "py_strip (u ''user'') = u ''user''"
    by (simp add: py_strip_def isspace_def)
  have r: "check_login_reply (302, [], AUTH_URL, [u ''Location'' \<mapsto> []]) (u ''tok'') =
      Inl (AuthenticationError msg_bad_credentials)"
    by (rule check_login_reply_no_location) simp
  show ?thesis
    unfolding portal_authenticate [OF assms h] r s by simp
qed

text \<open>
  Claim C3 as stated fails: a client that has logged in and then makes an
  \<open>authenticate\<close> call that the portal refuses still holds its session, with
  \<open>is_authenticated\<close> true; so does a client that is closed.
\<close>

theorem failed_authenticate_keeps_session_counterexample:
  "authenticate good_portal (u ''user'') (u ''secret'') (MisisClient 3 False) =
     (Inr demo_session, logged_in) \<and>
   fst (authenticate (portal [] [] full_profile) (u ''user'') (u ''secret'') logged_in) =
     Inl (AuthenticationError msg_bad_credentials) \<and>
   client_is_authenticated
     (snd (authenticate (portal [] [] full_profile) (u ''user'') (u ''secret'') logged_in)) \<and>
   session_info
     (snd (authenticate (portal [] [] full_profile) (u ''user'') (u ''secret'') logged_in)) =
     Some demo_session \<and>
   client_is_authenticated (close logged_in)"
proof -
  have a: "authenticate (portal [] [] full_profile) (u ''user'') (u ''secret'') logged_in =
     (Inl (AuthenticationError msg_bad_credentials),
      logged_in\<lparr>http_session := True,
        requests := requests logged_in @
          [get_request AUTH_URL, login_request (u ''user'') (u ''secret'')]\<rparr>)"
    by (rule portal_authenticate_refused) (rule logged_in_facts)
  have b: "client_is_authenticated (close logged_in)"
    using logged_in_facts by (simp add: client_is_authenticated_def close_session_info)
  show ?thesis
    unfolding a logged_in_eq using b logged_in_facts
    by (simp add: client_is_authenticated_def)
qed

text \<open>
  Claim C3, as amended. A new client holds no session, and only a successful
  \<open>authenticate\<close> creates one or makes the client authenticated: it stores the session
  it returns, with the flag set. A failed \<open>authenticate\<close> and \<open>close\<close> leave the
  client's session exactly as it was, so a client without an authenticated session has
  none after a failed call, and a session established before survives the failure.
\<close>

theorem session_created_by_authenticate_only:
  "session_info (MisisClient mr ext) = None \<and>
   (\<forall>e c'. authenticate w lg pw c = (Inl e, c') \<longrightarrow> session_info c' = session_info c) \<and>
   (\<forall>si c'. authenticate w lg pw c = (Inr si, c') \<longrightarrow>
      session_info c' = Some si \<and> is_authenticated si) \<and>
   session_info (close c) = session_info c \<and>
   (\<forall>x. session_info c = None \<and> session_info (snd (step w x c)) \<noteq> None \<longrightarrow>
      (\<exists>l p si. x = Authenticate l p \<and> fst (step w x c) = Inr (Session si) \<and>
         session_info (snd (step w x c)) = Some si)) \<and>
   (\<forall>x. \<not> client_is_authenticated c \<and> client_is_authenticated (snd (step w x c)) \<longrightarrow>
      (\<exists>l p si. x = Authenticate l p \<and> fst (step w x c) = Inr (Session si) \<and>
         session_info (snd (step w x c)) = Some si))"
proof -
  have p1: "session_info (MisisClient mr ext) = None"
    by (simp add: MisisClient_def)
  have p2: "\<forall>e c'. authenticate w lg pw c = (Inl e, c') \<longrightarrow> session_info c' = session_info c"
    using authenticate_failure_session_info by blast
  have p3: "\<forall>si c'. authenticate w lg pw c = (Inr si, c') \<longrightarrow>
      session_info c' = Some si \<and> is_authenticated si"
    using authenticate_success_session by blast
  have p4: "session_info (close c) = session_info c"
    by (rule close_session_info)
  have p5: "\<forall>x. session_info c = None \<and> session_info (snd (step w x c)) \<noteq> None \<longrightarrow>
      (\<exists>l p si. x = Authenticate l p \<and> fst (step w x c) = Inr (Session si) \<and>
         session_info (snd (step w x c)) = Some si)"
  proof (intro allI impI)
    fix x assume "session_info c = None \<and> session_info (snd (step w x c)) \<noteq> None"
    then show "\<exists>l p si. x = Authenticate l p \<and> fst (step w x c) = Inr (Session si) \<and>
         session_info (snd (step w x c)) = Some si"
      using step_session_info [of w x c] by auto
  qed
  have p6: "\<forall>x. \<not> client_is_authenticated c \<and> client_is_authenticated (snd (step w x c)) \<longrightarrow>
      (\<exists>l p si. x = Authenticate l p \<and> fst (step w x c) = Inr (Session si) \<and>
         session_info (snd (step w x c)) = Some si)"
  proof (intro allI impI)
    fix x assume "\<not> client_is_authenticated c \<and> client_is_authenticated (snd (step w x c))"
    then show "\<exists>l p si. x = Authenticate l p \<and> fst (step w x c) = Inr (Session si) \<and>
         session_info (snd (step w x c)) = Some si"
      using step_session_info [of w x c]
      by (auto simp: client_is_authenticated_def)
  qed
  show ?thesis
    by (intro conjI p1 p2 p3 p4 p5 p6)
qed

theorem session_created_by_authenticate_only_witness:
  "authenticate (portal [] [] full_profile) (u ''user'') (u ''secret'') logged_in =
     (Inl (AuthenticationError msg_bad_credentials),
      logged_in\<lparr>requests := requests logged_in @
         [get_request AUTH_URL, login_request (u ''user'') (u ''secret'')]\<rparr>) \<and>
   session_info (logged_in\<lparr>requests := requests logged_in @
         [get_request AUTH_URL, login_request (u ''user'') (u ''secret'')]\<rparr>) = Some demo_session \<and>
   authenticate good_portal (u ''user'') (u ''secret'') (MisisClient 3 False) =
     (Inr demo_session, logged_in) \<and>
   session_info logged_in = Some demo_session \<and> is_authenticated demo_session \<and>
   session_info (MisisClient 3 False) = None \<and>
   \<not> client_is_authenticated (MisisClient 3 False) \<and>
   client_is_authenticated
     (snd (step good_portal (Authenticate (u ''user'') (u ''secret'')) (MisisClient 3 False))) \<and>
   fst (step good_portal (Authenticate (u ''user'') (u ''secret'')) (MisisClient 3 False)) =
     Inr (Session demo_session)"
proof -
  have a: "authenticate (portal [] [] full_profile) (u ''user'') (u ''secret'') logged_in =
     (Inl (AuthenticationError msg_bad_credentials),
      logged_in\<lparr>requests := requests logged_in @
         [get_request AUTH_URL, login_request (u ''user'') (u ''secret'')]\<rparr>)"
    unfolding portal_authenticate_refused [OF logged_in_facts(1)]
    by (simp add: logged_in_def MisisClient_def)
  have b: "authenticate good_portal (u ''user'') (u ''secret'') (MisisClient 3 False) =
     (Inr demo_session, logged_in)"
    by (rule logged_in_eq)
  have i: "session_info (MisisClient 3 False) = None"
    "\<not> client_is_authenticated (MisisClient 3 False)"
    by (simp_all add: MisisClient_def client_is_authenticated_def)
  have s: "step good_portal (Authenticate (u ''user'') (u ''secret'')) (MisisClient 3 False) =
      (Inr (Session demo_session), logged_in)"
    by (simp only: step.simps b prod.case map_sum.simps)
  note t1 = session_created_by_authenticate_only
    [of 3 False "portal [] [] full_profile" "u ''user''" "u ''secret''" logged_in]
  note t2 = session_created_by_authenticate_only
    [of 3 False good_portal "u ''user''" "u ''secret''" "MisisClient 3 False"]
  have c1: "session_info (logged_in\<lparr>requests := requests logged_in @
         [get_request AUTH_URL, login_request (u ''user'') (u ''secret'')]\<rparr>) = Some demo_session"
    using t1 [THEN conjunct2, THEN conjunct1, rule_format, OF a] logged_in_facts(2)
    by (simp only:)
  have c2: "session_info logged_in = Some demo_session \<and> is_authenticated demo_session"
    by (rule t2 [THEN conjunct2, THEN conjunct2, THEN conjunct1, rule_format, OF b])
  have c3: "client_is_authenticated
     (snd (step good_portal (Authenticate (u ''user'') (u ''secret'')) (MisisClient 3 False)))"
    unfolding s by (simp add: logged_in_facts)
  have c4: "fst (step good_portal (Authenticate (u ''user'') (u ''secret'')) (MisisClient 3 False)) =
     Inr (Session demo_session)"
    unfolding s by simp
  show ?thesis
    by (intro conjI a b c1 c2 [THEN conjunct1] c2 [THEN conjunct2] i c3 c4)
qed

section \<open>The session state machine\<close>

lemma get_student_info_lapsed:
  assumes "session_info c = Some si" and "is_authenticated si"
    and "make_request w (get_request (BASE_URL @ u ''/ru/'' @ api_id si @ u ''/profile'')) c =
           (Inr (st, bd, ur, hs), c1)"
    and "str_in (u ''sign_in'') ur"
  shows "get_student_info w c =
     (Inl (SessionExpiredError msg_session_expired),
      c1\<lparr>session_info := Some (si\<lparr>is_authenticated := False\<rparr>)\<rparr>)"
  using assms by (simp add: get_student_info_def get_request_def)

lemma step_unauthenticated:
  assumes "\<not> client_is_authenticated c" and "\<forall>l p. x \<noteq> Authenticate l p"
  shows "\<not> client_is_authenticated (snd (step w x c)) \<and>
         requests (snd (step w x c)) = requests c"
proof (cases x)
  case Enter
  with assms show ?thesis by (simp add: aenter_def client_is_authenticated_def)
next
  case (Authenticate l p)
  with assms show ?thesis by simp
next
  case GetStudentInfo
  with assms show ?thesis by (simp add: get_student_info_unauthenticated)
next
  case Close
  with assms show ?thesis by (simp add: close_def client_is_authenticated_def)
qed

lemma run_unauthenticated:
  "\<not> client_is_authenticated c \<Longrightarrow> \<forall>l p. Authenticate l p \<notin> set xs \<Longrightarrow>
   \<not> client_is_authenticated (run w xs c) \<and> requests (run w xs c) = requests c"
proof (induction xs arbitrary: c)
  case Nil
  then show ?case by simp
next
  case (Cons x xs)
  have x: "\<forall>l p. x \<noteq> Authenticate l p"
    using Cons.prems(2) by auto
  have s: "\<not> client_is_authenticated (snd (step w x c))"
    "requests (snd (step w x c)) = requests c"
    using step_unauthenticated [OF Cons.prems(1) x] by simp_all
  have "\<forall>l p. Authenticate l p \<notin> set xs"
    using Cons.prems(2) by auto
  with Cons.IH [OF s(1)] s(2) show ?case
    by simp
qed

text \<open>
  Claim C4. The session moves between two states. While the client is not
  authenticated (no session yet, or the flag cleared), \<open>get_student_info\<close> raises
  SessionExpired and leaves the client as it was. A successful \<open>authenticate\<close> makes it
  authenticated. When an authenticated client's profile fetch ends at a URL that
  contains \<open>sign_in\<close>, \<open>get_student_info\<close> clears the flag and raises SessionExpired.
  After that, through any operations other than \<open>authenticate\<close>, the client stays
  unauthenticated, issues no request (so no login is retried) and
  \<open>get_student_info\<close> raises SessionExpired again. No other operation changes the
  state: it rises only by a successful \<open>authenticate\<close> and falls only by that detection.
\<close>

theorem session_state_machine:
  "(\<not> client_is_authenticated c \<longrightarrow>
      get_student_info w c = (Inl (SessionExpiredError msg_need_auth), c)) \<and>
   (\<forall>si c'. authenticate w lg pw c = (Inr si, c') \<longrightarrow> client_is_authenticated c') \<and>
   (\<forall>si st bd ur hs c1.
      session_info c = Some si \<and> is_authenticated si \<and>
      make_request w (get_request (BASE_URL @ u ''/ru/'' @ api_id si @ u ''/profile'')) c =
        (Inr (st, bd, ur, hs), c1) \<and>
      str_in (u ''sign_in'') ur \<longrightarrow>
      get_student_info w c =
        (Inl (SessionExpiredError msg_session_expired),
         c1\<lparr>session_info := Some (si\<lparr>is_authenticated := False\<rparr>)\<rparr>) \<and>
      \<not> client_is_authenticated (snd (get_student_info w c))) \<and>
   (\<forall>xs. \<not> client_is_authenticated c \<and> (\<forall>l p. Authenticate l p \<notin> set xs) \<longrightarrow>
      \<not> client_is_authenticated (run w xs c) \<and> requests (run w xs c) = requests c \<and>
      get_student_info w (run w xs c) =
        (Inl (SessionExpiredError msg_need_auth), run w xs c)) \<and>
   (\<forall>x. client_is_authenticated (snd (step w x c)) \<noteq> client_is_authenticated c \<longrightarrow>
      (\<not> client_is_authenticated c \<and>
       (\<exists>l p si. x = Authenticate l p \<and> fst (step w x c) = Inr (Session si))) \<or>
      (client_is_authenticated c \<and> x = GetStudentInfo \<and>
       fst (step w x c) = Inl (SessionExpiredError msg_session_expired)))"
proof -
  have p1: "\<not> client_is_authenticated c \<longrightarrow>
      get_student_info w c = (Inl (SessionExpiredError msg_need_auth), c)"
    by (simp add: get_student_info_unauthenticated)
  have p2: "\<forall>si c'. authenticate w lg pw c = (Inr si, c') \<longrightarrow> client_is_authenticated c'"
  proof (intro allI impI)
    fix si c' assume "authenticate w lg pw c = (Inr si, c')"
    then have "session_info c' = Some si \<and> is_authenticated si"
      using authenticate_success_session by blast
    then show "client_is_authenticated c'"
      by (simp add: client_is_authenticated_def)
  qed
  have p3: "\<forall>si st bd ur hs c1.
      session_info c = Some si \<and> is_authenticated si \<and>
      make_request w (get_request (BASE_URL @ u ''/ru/'' @ api_id si @ u ''/profile'')) c =
        (Inr (st, bd, ur, hs), c1) \<and>
      str_in (u ''sign_in'') ur \<longrightarrow>
      get_student_info w c =
        (Inl (SessionExpiredError msg_session_expired),
         c1\<lparr>session_info := Some (si\<lparr>is_authenticated := False\<rparr>)\<rparr>) \<and>
      \<not> client_is_authenticated (snd (get_student_info w c))"
  proof (intro allI impI)
    fix si st bd ur hs c1
    assume a: "session_info c = Some si \<and> is_authenticated si \<and>
      make_request w (get_request (BASE_URL @ u ''/ru/'' @ api_id si @ u ''/profile'')) c =
        (Inr (st, bd, ur, hs), c1) \<and>
      str_in (u ''sign_in'') ur"
    have g: "get_student_info w c =
        (Inl (SessionExpiredError msg_session_expired),
         c1\<lparr>session_info := Some (si\<lparr>is_authenticated := False\<rparr>)\<rparr>)"
      by (rule get_student_info_lapsed [OF a [THEN conjunct1] a [THEN conjunct2, THEN conjunct1]
            a [THEN conjunct2, THEN conjunct2, THEN conjunct1]
            a [THEN conjunct2, THEN conjunct2, THEN conjunct2]])
    have "\<not> client_is_authenticated (snd (get_student_info w c))"
      unfolding g by (simp add: client_is_authenticated_def)
    with g show "get_student_info w c =
        (Inl (SessionExpiredError msg_session_expired),
         c1\<lparr>session_info := Some (si\<lparr>is_authenticated := False\<rparr>)\<rparr>) \<and>
      \<not> client_is_authenticated (snd (get_student_info w c))"
      by (rule conjI)
  qed
  have p4: "\<forall>xs. \<not> client_is_authenticated c \<and> (\<forall>l p. Authenticate l p \<notin> set xs) \<longrightarrow>
      \<not> client_is_authenticated (run w xs c) \<and> requests (run w xs c) = requests c \<and>
      get_student_info w (run w xs c) =
        (Inl (SessionExpiredError msg_need_auth), run w xs c)"
  proof (intro allI impI)
    fix xs
    assume a: "\<not> client_is_authenticated c \<and> (\<forall>l p. Authenticate l p \<notin> set xs)"
    have r: "\<not> client_is_authenticated (run w xs c) \<and> requests (run w xs c) = requests c"
      by (rule run_unauthenticated [OF a [THEN conjunct1] a [THEN conjunct2]])
    have "get_student_info w (run w xs c) =
        (Inl (SessionExpiredError msg_need_auth), run w xs c)"
      by (rule get_student_info_unauthenticated [OF r [THEN conjunct1]])
    with r show "\<not> client_is_authenticated (run w xs c) \<and> requests (run w xs c) = requests c \<and>
      get_student_info w (run w xs c) =
        (Inl (SessionExpiredError msg_need_auth), run w xs c)"
      by simp
  qed
  have p5: "\<forall>x. client_is_authenticated (snd (step w x c)) \<noteq> client_is_authenticated c \<longrightarrow>
      (\<not> client_is_authenticated c \<and>
       (\<exists>l p si. x = Authenticate l p \<and> fst (step w x c) = Inr (Session si))) \<or>
      (client_is_authenticated c \<and> x = GetStudentInfo \<and>
       fst (step w x c) = Inl (SessionExpiredError msg_session_expired))"
  proof (intro allI impI)
    fix x assume a: "client_is_authenticated (snd (step w x c)) \<noteq> client_is_authenticated c"
    from step_session_info [of w x c] show "(\<not> client_is_authenticated c \<and>
       (\<exists>l p si. x = Authenticate l p \<and> fst (step w x c) = Inr (Session si))) \<or>
      (client_is_authenticated c \<and> x = GetStudentInfo \<and>
       fst (step w x c) = Inl (SessionExpiredError msg_session_expired))"
    proof (elim disjE exE conjE)
      assume "session_info (snd (step w x c)) = session_info c"
      with a show ?thesis by (simp add: client_is_authenticated_def)
    next
      fix l p si
      assume "x = Authenticate l p" "fst (step w x c) = Inr (Session si)"
        "session_info (snd (step w x c)) = Some si" "is_authenticated si"
      with a show ?thesis by (auto simp: client_is_authenticated_def)
    next
      fix si
      assume "x = GetStudentInfo" "session_info c = Some si" "is_authenticated si"
        "fst (step w x c) = Inl (SessionExpiredError msg_session_expired)"
      then show ?thesis by (simp add: client_is_authenticated_def)
    qed
  qed
  show ?thesis
    by (intro conjI p1 p2 p3 p4 p5)
qed

lemma fresh_client_facts:
  "max_retries (MisisClient 3 False) = 3" "session_info (MisisClient 3 False) = None"
  "\<not> client_is_authenticated (MisisClient 3 False)" "requests (MisisClient 3 False) = []"
  by (simp_all add: MisisClient_def client_is_authenticated_def)

lemma lapsed_facts:
  "session_info lapsed = Some (demo_session\<lparr>is_authenticated := False\<rparr>)"
  "\<not> client_is_authenticated lapsed"
  by (simp_all add: lapsed_def client_is_authenticated_def)

lemma lapsed_portal_profile:
  "make_request lapsed_portal profile_request logged_in =
     (Inr (200, u ''profile'', AUTH_URL, Map.empty),
      logged_in\<lparr>requests := requests logged_in @ [profile_request]\<rparr>)"
  by (simp add: make_request_def upt_0_3 get_session_eq lapsed_portal_def portal_def
      profile_request_def get_request_def logged_in_def MisisClient_def demo_session_def
      AUTH_URL_def BASE_URL_def)

lemma sign_in_in_AUTH_URL: "str_in (u ''sign_in'') AUTH_URL"
  by (simp add: AUTH_URL_def BASE_URL_def)

lemma lapsed_portal_login:
  "authenticate lapsed_portal (u ''user'') (u ''secret'') (MisisClient 3 False) =
     (Inr demo_session, logged_in)"
  unfolding lapsed_portal_def logged_in_def
  by (subst portal_authenticate_demo) (simp_all add: MisisClient_def)

theorem session_state_machine_witness:
  "\<not> client_is_authenticated (MisisClient 3 False) \<and>
   get_student_info lapsed_portal (MisisClient 3 False) =
     (Inl (SessionExpiredError msg_need_auth), MisisClient 3 False) \<and>
   authenticate lapsed_portal (u ''user'') (u ''secret'') (MisisClient 3 False) =
     (Inr demo_session, logged_in) \<and>
   client_is_authenticated logged_in \<and>
   get_student_info lapsed_portal logged_in =
     (Inl (SessionExpiredError msg_session_expired), lapsed) \<and>
   \<not> client_is_authenticated lapsed \<and>
   requests (run lapsed_portal [GetStudentInfo, Close, GetStudentInfo] lapsed) = requests lapsed \<and>
   get_student_info lapsed_portal (run lapsed_portal [GetStudentInfo, Close, GetStudentInfo] lapsed) =
     (Inl (SessionExpiredError msg_need_auth),
      run lapsed_portal [GetStudentInfo, Close, GetStudentInfo] lapsed)"
proof -
  note t0 = session_state_machine
    [of "MisisClient 3 False" lapsed_portal "u ''user''" "u ''secret''"]
  note t1 = session_state_machine [of logged_in lapsed_portal "u ''user''" "u ''secret''"]
  note t2 = session_state_machine [of lapsed lapsed_portal "u ''user''" "u ''secret''"]
  have a: "get_student_info lapsed_portal (MisisClient 3 False) =
     (Inl (SessionExpiredError msg_need_auth), MisisClient 3 False)"
    by (rule t0 [THEN conjunct1, rule_format, OF fresh_client_facts(3)])
  have b: "client_is_authenticated logged_in"
    by (rule t0 [THEN conjunct2, THEN conjunct1, rule_format, OF lapsed_portal_login])
  have h: "session_info logged_in = Some demo_session \<and> is_authenticated demo_session \<and>
      make_request lapsed_portal
        (get_request (BASE_URL @ u ''/ru/'' @ api_id demo_session @ u ''/profile'')) logged_in =
        (Inr (200, u ''profile'', AUTH_URL, Map.empty),
         logged_in\<lparr>requests := requests logged_in @ [profile_request]\<rparr>) \<and>
      str_in (u ''sign_in'') AUTH_URL"
    using lapsed_portal_profile sign_in_in_AUTH_URL logged_in_facts(2)
    unfolding profile_request_def by (simp add: demo_session_def)
  have c: "get_student_info lapsed_portal logged_in =
     (Inl (SessionExpiredError msg_session_expired), lapsed)"
    using t1 [THEN conjunct2, THEN conjunct2, THEN conjunct1, rule_format, OF h, THEN conjunct1]
    by (simp add: lapsed_def)
  have n: "\<not> client_is_authenticated lapsed \<and>
      (\<forall>l p. Authenticate l p \<notin> set [GetStudentInfo, Close, GetStudentInfo])"
    using lapsed_facts(2) by simp
  note d = t2 [THEN conjunct2, THEN conjunct2, THEN conjunct2, THEN conjunct1, rule_format, OF n]
  show ?thesis
    by (intro conjI fresh_client_facts(3) a lapsed_portal_login b c lapsed_facts(2)
        d [THEN conjunct2, THEN conjunct1] d [THEN conjunct2, THEN conjunct2])
qed

section \<open>The invariant of the session\<close>

lemma step_invariant:
  assumes "session_invariant c"
  shows "session_invariant (snd (step w x c))"
  using step_session_info [of w x c]
proof (elim disjE exE conjE)
  assume "session_info (snd (step w x c)) = session_info c"
  with assms show ?thesis by (simp add: session_invariant_def)
next
  fix lg pw si
  assume "session_info (snd (step w x c)) = Some si" "api_id si \<noteq> []" "csrf_token si \<noteq> []"
  then show ?thesis by (simp add: session_invariant_def)
next
  fix si
  assume "session_info (snd (step w x c)) = Some (si\<lparr>is_authenticated := False\<rparr>)"
  then show ?thesis by (simp add: session_invariant_def)
qed

lemma run_invariant: "session_invariant c \<Longrightarrow> session_invariant (run w xs c)"
  by (induction xs arbitrary: c) (simp_all add: step_invariant)

lemma fresh_invariant: "session_invariant (MisisClient mr ext)"
  by (simp add: session_invariant_def MisisClient_def)

text \<open>
  Claim C9. A \<open>SessionInfo\<close> that is constructed stores its account identifier and its
  token trimmed, and neither is empty; a new client satisfies the invariant and every
  operation of the client preserves it, so it holds after any sequence of operations.
  An operation either leaves the client's session as it was, or is a successful
  \<open>authenticate\<close> that stores a newly constructed session, or is the \<open>get_student_info\<close>
  that clears the flag of the session it holds, changing nothing else in it.
\<close>

theorem session_invariant_preserved:
  "(\<forall>si. SessionInfo a t b = Inr si \<longrightarrow>
      api_id si = py_strip a \<and> csrf_token si = py_strip t \<and> is_authenticated si = b \<and>
      api_id si \<noteq> [] \<and> csrf_token si \<noteq> []) \<and>
   session_invariant (MisisClient mr ext) \<and>
   (session_invariant c \<longrightarrow> session_invariant (snd (step w x c))) \<and>
   session_invariant (run w xs (MisisClient mr ext)) \<and>
   (session_info (snd (step w x c)) = session_info c \<or>
    (\<exists>lg pw si. x = Authenticate lg pw \<and> fst (step w x c) = Inr (Session si) \<and>
        session_info (snd (step w x c)) = Some si \<and> is_authenticated si \<and>
        api_id si \<noteq> [] \<and> csrf_token si \<noteq> []) \<or>
    (\<exists>si. x = GetStudentInfo \<and> session_info c = Some si \<and> is_authenticated si \<and>
        session_info (snd (step w x c)) = Some (si\<lparr>is_authenticated := False\<rparr>)))"
proof -
  have p1: "\<forall>si. SessionInfo a t b = Inr si \<longrightarrow>
      api_id si = py_strip a \<and> csrf_token si = py_strip t \<and> is_authenticated si = b \<and>
      api_id si \<noteq> [] \<and> csrf_token si \<noteq> []"
  proof (intro allI impI)
    fix si assume "SessionInfo a t b = Inr si"
    from SessionInfo_Inr [OF this]
    show "api_id si = py_strip a \<and> csrf_token si = py_strip t \<and> is_authenticated si = b \<and>
      api_id si \<noteq> [] \<and> csrf_token si \<noteq> []"
      by simp
  qed
  have p3: "session_invariant c \<longrightarrow> session_invariant (snd (step w x c))"
    by (simp add: step_invariant)
  have p4: "session_invariant (run w xs (MisisClient mr ext))"
    by (rule run_invariant [OF fresh_invariant])
  have p5: "session_info (snd (step w x c)) = session_info c \<or>
    (\<exists>lg pw si. x = Authenticate lg pw \<and> fst (step w x c) = Inr (Session si) \<and>
        session_info (snd (step w x c)) = Some si \<and> is_authenticated si \<and>
        api_id si \<noteq> [] \<and> csrf_token si \<noteq> []) \<or>
    (\<exists>si. x = GetStudentInfo \<and> session_info c = Some si \<and> is_authenticated si \<and>
        session_info (snd (step w x c)) = Some (si\<lparr>is_authenticated := False\<rparr>))"
    using step_session_info [of w x c] by blast
  show ?thesis
    by (intro conjI p1 fresh_invariant p3 p4 p5)
qed

lemma strip_s: "py_strip (u '' s '') = u ''s''" "py_strip (u ''tok'') = u ''tok''"
  by (simp_all add: py_strip_def isspace_def)

lemma SessionInfo_demo: "SessionInfo (u '' s '') (u ''tok'') True = Inr demo_session"
  by (simp add: SessionInfo_def model_result_def validated_field_def validate_api_id_def
      validate_csrf_token_def py_strip_def isspace_def demo_session_def)

lemma lapsed_portal_get_student_info:
  "get_student_info lapsed_portal logged_in =
     (Inl (SessionExpiredError msg_session_expired), lapsed)"
proof -
  have "get_student_info lapsed_portal logged_in =
     (Inl (SessionExpiredError msg_session_expired),
      logged_in\<lparr>requests := requests logged_in @ [profile_request],
        session_info := Some (demo_session\<lparr>is_authenticated := False\<rparr>)\<rparr>)"
  proof (rule get_student_info_lapsed)
    show "session_info logged_in = Some demo_session"
      by (rule logged_in_facts)
    show "is_authenticated demo_session"
      by (simp add: demo_session_def)
    show "make_request lapsed_portal
        (get_request (BASE_URL @ u ''/ru/'' @ api_id demo_session @ u ''/profile'')) logged_in =
        (Inr (200, u ''profile'', AUTH_URL, Map.empty),
         logged_in\<lparr>requests := requests logged_in @ [profile_request]\<rparr>)"
      using lapsed_portal_profile unfolding profile_request_def .
    show "str_in (u ''sign_in'') AUTH_URL"
      by (rule sign_in_in_AUTH_URL)
  qed
  then show ?thesis
    by (simp add: lapsed_def)
qed

theorem session_invariant_preserved_witness:
  "SessionInfo (u '' s '') (u ''tok'') True = Inr demo_session \<and>
   api_id demo_session = u ''s'' \<and> csrf_token demo_session = u ''tok'' \<and>
   session_info logged_in = Some demo_session \<and> is_authenticated demo_session \<and>
   session_invariant logged_in \<and>
   step lapsed_portal GetStudentInfo logged_in =
     (Inl (SessionExpiredError msg_session_expired), lapsed) \<and>
   session_invariant lapsed"
proof -
  note t = session_invariant_preserved
    [of "u '' s ''" "u ''tok''" True 3 False logged_in lapsed_portal GetStudentInfo
       "[Authenticate (u ''user'') (u ''secret'')]"]
  have d: "api_id demo_session = py_strip (u '' s '') \<and>
      csrf_token demo_session = py_strip (u ''tok'') \<and> is_authenticated demo_session = True \<and>
      api_id demo_session \<noteq> [] \<and> csrf_token demo_session \<noteq> []"
    by (rule t [THEN conjunct1, rule_format, OF SessionInfo_demo])
  have ne: "api_id demo_session \<noteq> [] \<and> csrf_token demo_session \<noteq> []"
    by (rule d [THEN conjunct2, THEN conjunct2, THEN conjunct2])
  have i: "session_invariant logged_in"
    using ne logged_in_facts(2) by (simp add: session_invariant_def)
  have s: "step lapsed_portal GetStudentInfo logged_in =
     (Inl (SessionExpiredError msg_session_expired), lapsed)"
    by (simp add: lapsed_portal_get_student_info)
  have l: "session_invariant lapsed"
    using t [THEN conjunct2, THEN conjunct2, THEN conjunct1, rule_format, OF i]
    unfolding s by simp
  have a: "api_id demo_session = u ''s''" "csrf_token demo_session = u ''tok''"
    "is_authenticated demo_session"
    using d unfolding strip_s by simp_all
  show ?thesis
    by (intro conjI SessionInfo_demo a logged_in_facts(2) i s l)
qed

section \<open>The profile record\<close>

lemma ap_Inl_right: "ap f (Inl es) = Inl (errors_of f @ es)"
  by (cases f) (simp_all add: errors_of_def)

lemma ap_Inl_left: "ap (Inl es) x = Inl (es @ errors_of x)"
  by (cases x) (simp_all add: errors_of_def)

lemma StudentInfo_bad_personal_email:
  assumes "kw (u ''personal_email'') = Some (Some e)" and "e \<noteq> []" and "\<not> str_in (u ''@'') e"
  shows "\<exists>es. StudentInfo kw = Inl (ValidationError es) \<and>
              (u ''personal_email'', msg_bad_email) \<in> set es"
proof -
  have f: "validated_field (u ''personal_email'')
      (optional_str validate_personal_email (kw (u ''personal_email''))) =
      Inl [(u ''personal_email'', msg_bad_email)]"
    using assms by (simp add: validated_field_def optional_str_def validate_personal_email_def)
  show ?thesis
    unfolding StudentInfo_def f
    by (simp add: ap_Inl_right ap_Inl_left model_result_def)
qed

lemma StudentInfo_bad_corporate_email:
  assumes "kw (u ''corporate_email'') = Some (Some e)" and "e \<noteq> []" and "\<not> str_in (u ''@'') e"
  shows "\<exists>es. StudentInfo kw = Inl (ValidationError es) \<and>
              (u ''corporate_email'', msg_bad_email) \<in> set es"
proof -
  have f: "validated_field (u ''corporate_email'')
      (optional_str validate_corporate_email (kw (u ''corporate_email''))) =
      Inl [(u ''corporate_email'', msg_bad_email)]"
    using assms by (simp add: validated_field_def optional_str_def validate_corporate_email_def)
  show ?thesis
    unfolding StudentInfo_def f
    by (simp add: ap_Inl_right ap_Inl_left model_result_def)
qed


lemma py_strip_Nil: "py_strip [] = []"
  by (simp add: py_strip_def)

lemma optional_no_validator:
  "optional_str no_validator arg = Inr (case arg of None \<Rightarrow> None | Some v \<Rightarrow> v)"
  by (simp add: optional_str_def no_validator_def split: option.splits)

lemma optional_personal_email:
  "\<forall>e. arg = Some (Some e) \<longrightarrow> e = [] \<or> str_in (u ''@'') e \<Longrightarrow>
   optional_str validate_personal_email arg = Inr (case arg of None \<Rightarrow> None | Some v \<Rightarrow> v)"
  by (auto simp: optional_str_def validate_personal_email_def split: option.splits)

lemma optional_corporate_email:
  "\<forall>e. arg = Some (Some e) \<longrightarrow> e = [] \<or> str_in (u ''@'') e \<Longrightarrow>
   optional_str validate_corporate_email arg = Inr (case arg of None \<Rightarrow> None | Some v \<Rightarrow> v)"
  by (auto simp: optional_str_def validate_corporate_email_def split: option.splits)

lemma required_no_validator: "required_str no_validator (Some (Some v)) = Inr v"
  by (simp add: required_str_def no_validator_def)

lemma StudentInfo_valid:
  assumes req: "\<forall>f\<in>set required_fields. \<exists>v. kw f = Some (Some v)"
    and fn: "\<forall>v. kw (u ''full_name'') = Some (Some v) \<longrightarrow> py_strip v \<noteq> []"
    and rb: "\<forall>v. kw (u ''record_book_number'') = Some (Some v) \<longrightarrow> py_strip v \<noteq> []"
    and pe: "\<forall>e. kw (u ''personal_email'') = Some (Some e) \<longrightarrow> e = [] \<or> str_in (u ''@'') e"
    and ce: "\<forall>e. kw (u ''corporate_email'') = Some (Some e) \<longrightarrow> e = [] \<or> str_in (u ''@'') e"
  shows "\<exists>info. StudentInfo kw = Inr info \<and>
           personal_email info = dict_get kw (u ''personal_email'') \<and>
           corporate_email info = dict_get kw (u ''corporate_email'')"
proof -
  obtain v1 where k1: "kw (u ''full_name'') = Some (Some v1)"
    using req by (auto simp: required_fields_def)
  obtain v2 where k2: "kw (u ''record_book_number'') = Some (Some v2)"
    using req by (auto simp: required_fields_def)
  obtain v3 where k3: "kw (u ''study_form'') = Some (Some v3)"
    using req by (auto simp: required_fields_def)
  obtain v4 where k4: "kw (u ''preparation_level'') = Some (Some v4)"
    using req by (auto simp: required_fields_def)
  obtain v5 where k5: "kw (u ''specialty'') = Some (Some v5)"
    using req by (auto simp: required_fields_def)
  obtain v6 where k6: "kw (u ''faculty'') = Some (Some v6)"
    using req by (auto simp: required_fields_def)
  obtain v7 where k7: "kw (u ''course'') = Some (Some v7)"
    using req by (auto simp: required_fields_def)
  obtain v8 where k8: "kw (u ''group'') = Some (Some v8)"
    using req by (auto simp: required_fields_def)
  obtain v9 where k9: "kw (u ''financing_form'') = Some (Some v9)"
    using req by (auto simp: required_fields_def)
  obtain v10 where k10: "kw (u ''dormitory'') = Some (Some v10)"
    using req by (auto simp: required_fields_def)
  obtain v11 where k11: "kw (u ''end_date'') = Some (Some v11)"
    using req by (auto simp: required_fields_def)
  have f1: "required_str validate_full_name (Some (Some v1)) = Inr (py_strip v1)"
    using fn k1 by (auto simp: required_str_def validate_full_name_def py_strip_Nil)
  have f2: "required_str validate_record_book_number (Some (Some v2)) = Inr (py_strip v2)"
    using rb k2 by (auto simp: required_str_def validate_record_book_number_def py_strip_Nil)
  show ?thesis
    unfolding StudentInfo_def k1 k2 k3 k4 k5 k6 k7 k8 k9 k10 k11 f1 f2 required_no_validator
      optional_no_validator optional_personal_email [OF pe] optional_corporate_email [OF ce]
    by (simp add: validated_field_def model_result_def dict_get_def)
qed

text \<open>
  Claim C8, as amended. Whatever the other fields are, an optional e-mail field
  (personal or corporate) that is given, is not empty and contains no \<open>@\<close> makes the
  construction of the record fail with a Validation error that lists that field. With
  the eleven required fields given as strings, the full name and the record-book number
  not blank, the construction succeeds when each e-mail field is absent, \<open>None\<close>,
  empty, or contains an \<open>@\<close>, and the record keeps the e-mail fields as given.
\<close>

theorem StudentInfo_email_validation:
  "(\<forall>e. (kw (u ''personal_email'') = Some (Some e) \<or> kw (u ''corporate_email'') = Some (Some e)) \<and>
        e \<noteq> [] \<and> \<not> str_in (u ''@'') e \<longrightarrow>
      (\<exists>es. StudentInfo kw = Inl (ValidationError es) \<and>
         ((u ''personal_email'', msg_bad_email) \<in> set es \<or>
          (u ''corporate_email'', msg_bad_email) \<in> set es))) \<and>
   ((\<forall>f\<in>set required_fields. \<exists>v. kw f = Some (Some v)) \<and>
    (\<forall>v. kw (u ''full_name'') = Some (Some v) \<longrightarrow> py_strip v \<noteq> []) \<and>
    (\<forall>v. kw (u ''record_book_number'') = Some (Some v) \<longrightarrow> py_strip v \<noteq> []) \<and>
    (\<forall>e. kw (u ''personal_email'') = Some (Some e) \<longrightarrow> e = [] \<or> str_in (u ''@'') e) \<and>
    (\<forall>e. kw (u ''corporate_email'') = Some (Some e) \<longrightarrow> e = [] \<or> str_in (u ''@'') e) \<longrightarrow>
      (\<exists>info. StudentInfo kw = Inr info \<and>
         personal_email info = dict_get kw (u ''personal_email'') \<and>
         corporate_email info = dict_get kw (u ''corporate_email'')))"
proof -
  have p1: "\<forall>e. (kw (u ''personal_email'') = Some (Some e) \<or>
                 kw (u ''corporate_email'') = Some (Some e)) \<and>
        e \<noteq> [] \<and> \<not> str_in (u ''@'') e \<longrightarrow>
      (\<exists>es. StudentInfo kw = Inl (ValidationError es) \<and>
         ((u ''personal_email'', msg_bad_email) \<in> set es \<or>
          (u ''corporate_email'', msg_bad_email) \<in> set es))"
  proof (intro allI impI)
    fix e
    assume a: "(kw (u ''personal_email'') = Some (Some e) \<or>
                kw (u ''corporate_email'') = Some (Some e)) \<and>
        e \<noteq> [] \<and> \<not> str_in (u ''@'') e"
    then have e: "e \<noteq> []" "\<not> str_in (u ''@'') e"
      by blast+
    from a have "kw (u ''personal_email'') = Some (Some e) \<or>
                 kw (u ''corporate_email'') = Some (Some e)"
      by blast
    then show "\<exists>es. StudentInfo kw = Inl (ValidationError es) \<and>
         ((u ''personal_email'', msg_bad_email) \<in> set es \<or>
          (u ''corporate_email'', msg_bad_email) \<in> set es)"
    proof
      assume "kw (u ''personal_email'') = Some (Some e)"
      from StudentInfo_bad_personal_email [of kw e, OF this e] show ?thesis by blast
    next
      assume "kw (u ''corporate_email'') = Some (Some e)"
      from StudentInfo_bad_corporate_email [of kw e, OF this e] show ?thesis by blast
    qed
  qed
  have p2: "(\<forall>f\<in>set required_fields. \<exists>v. kw f = Some (Some v)) \<and>
    (\<forall>v. kw (u ''full_name'') = Some (Some v) \<longrightarrow> py_strip v \<noteq> []) \<and>
    (\<forall>v. kw (u ''record_book_number'') = Some (Some v) \<longrightarrow> py_strip v \<noteq> []) \<and>
    (\<forall>e. kw (u ''personal_email'') = Some (Some e) \<longrightarrow> e = [] \<or> str_in (u ''@'') e) \<and>
    (\<forall>e. kw (u ''corporate_email'') = Some (Some e) \<longrightarrow> e = [] \<or> str_in (u ''@'') e) \<longrightarrow>
      (\<exists>info. StudentInfo kw = Inr info \<and>
         personal_email info = dict_get kw (u ''personal_email'') \<and>
         corporate_email info = dict_get kw (u ''corporate_email''))"
  proof
    assume a: "(\<forall>f\<in>set required_fields. \<exists>v. kw f = Some (Some v)) \<and>
    (\<forall>v. kw (u ''full_name'') = Some (Some v) \<longrightarrow> py_strip v \<noteq> []) \<and>
    (\<forall>v. kw (u ''record_book_number'') = Some (Some v) \<longrightarrow> py_strip v \<noteq> []) \<and>
    (\<forall>e. kw (u ''personal_email'') = Some (Some e) \<longrightarrow> e = [] \<or> str_in (u ''@'') e) \<and>
    (\<forall>e. kw (u ''corporate_email'') = Some (Some e) \<longrightarrow> e = [] \<or> str_in (u ''@'') e)"
    show "\<exists>info. StudentInfo kw = Inr info \<and>
         personal_email info = dict_get kw (u ''personal_email'') \<and>
         corporate_email info = dict_get kw (u ''corporate_email'')"
      by (rule StudentInfo_valid [OF a [THEN conjunct1] a [THEN conjunct2, THEN conjunct1]
            a [THEN conjunct2, THEN conjunct2, THEN conjunct1]
            a [THEN conjunct2, THEN conjunct2, THEN conjunct2, THEN conjunct1]
            a [THEN conjunct2, THEN conjunct2, THEN conjunct2, THEN conjunct2]])
  qed
  show ?thesis
    by (intro conjI p1 p2)
qed

section \<open>The profile parser\<close>

lemma collect_data_lookup:
  "collect_data sp (u ''record_book_number'') = Some (extract_value sp lbl_record_book_number)"
  "collect_data sp (u ''study_form'') = Some (extract_value sp lbl_study_form)"
  "collect_data sp (u ''preparation_level'') = Some (extract_value sp lbl_preparation_level)"
  "collect_data sp (u ''specialization'') = Some (extract_value sp lbl_specialization)"
  "collect_data sp (u ''specialty'') = Some (extract_value sp lbl_specialty)"
  "collect_data sp (u ''faculty'') = Some (extract_value sp lbl_faculty)"
  "collect_data sp (u ''course'') = Some (extract_value sp lbl_course)"
  "collect_data sp (u ''group'') = Some (extract_value sp lbl_group)"
  "collect_data sp (u ''financing_form'') = Some (extract_value sp lbl_financing_form)"
  "collect_data sp (u ''dormitory'') = Some (extract_value sp lbl_dormitory)"
  "collect_data sp (u ''end_date'') = Some (extract_value sp lbl_end_date)"
  "collect_data sp (u ''personal_email'') = Some (extract_value sp lbl_personal_email)"
  "collect_data sp (u ''personal_phone'') = Some (extract_value sp lbl_personal_phone)"
  "collect_data sp (u ''corporate_email'') = Some (extract_value sp lbl_corporate_email)"
  by (simp_all add: collect_data_def)

lemma collect_data_full_name:
  "collect_data sp (u ''full_name'') =
     (case person_name sp of
        None \<Rightarrow> None
      | Some h3 \<Rightarrow> Some (Some (case h3 of None \<Rightarrow> [] | Some t \<Rightarrow> t)))"
  by (simp add: collect_data_def split: option.splits)

lemma extract_value_no_label:
  assumes "\<forall>(s, v)\<in>set (person_labels sp). \<forall>t. s = Some t \<longrightarrow> \<not> str_in label_text t"
  shows "extract_value sp label_text = None"
proof -
  have "find (\<lambda>(s, v). case s of None \<Rightarrow> False | Some t \<Rightarrow> t \<noteq> [] \<and> str_in label_text t)
          (person_labels sp) = None"
    using assms by (auto simp: find_None_iff split: option.splits)
  then show ?thesis
    by (simp add: extract_value_def)
qed


lemma build_student_info_missing:
  "find (\<lambda>fld. dict_get data fld = None) required_fields = Some f \<Longrightarrow>
   build_student_info w data = Inl (ParseError (msg_required_pre @ f @ msg_required_post))"
  by (simp add: build_student_info_def)

lemma find_missing:
  assumes "\<exists>f\<in>set fs. P f"
  shows "\<exists>f\<in>set fs. P f \<and> find P fs = Some f"
  using assms by (induction fs) auto

text \<open>
  Claim C7, as amended. The list of required fields has eleven names. When some required field of
  the collected data is \<open>None\<close>, \<open>_parse_student_info\<close> fails with the Parse error that
  names a missing required field, the first one in the order of the list. For a page
  with no label that contains the caption of the course, the field \<open>course\<close> is
  \<open>None\<close>, so the parse fails with such an error; it names \<open>course\<close> when the six
  required fields before it in the list are present.
\<close>

theorem parse_student_info_required_fields:
  "length required_fields = 11 \<and>
   (\<forall>f. find (\<lambda>fld. dict_get (collect_data (BeautifulSoup w html)) fld = None) required_fields
          = Some f \<longrightarrow>
      parse_student_info w html = Inl (ParseError (msg_required_pre @ f @ msg_required_post))) \<and>
   ((\<exists>f\<in>set required_fields. dict_get (collect_data (BeautifulSoup w html)) f = None) \<longrightarrow>
      (\<exists>f\<in>set required_fields. dict_get (collect_data (BeautifulSoup w html)) f = None \<and>
         parse_student_info w html =
           Inl (ParseError (msg_required_pre @ f @ msg_required_post)))) \<and>
   ((\<forall>(s, v)\<in>set (person_labels (BeautifulSoup w html)).
        \<forall>t. s = Some t \<longrightarrow> \<not> str_in lbl_course t) \<longrightarrow>
      dict_get (collect_data (BeautifulSoup w html)) (u ''course'') = None \<and>
      (\<exists>f\<in>set required_fields. dict_get (collect_data (BeautifulSoup w html)) f = None \<and>
         parse_student_info w html =
           Inl (ParseError (msg_required_pre @ f @ msg_required_post)))) \<and>
   ((\<forall>(s, v)\<in>set (person_labels (BeautifulSoup w html)).
        \<forall>t. s = Some t \<longrightarrow> \<not> str_in lbl_course t) \<and>
    (\<forall>f\<in>set (take 6 required_fields).
        dict_get (collect_data (BeautifulSoup w html)) f \<noteq> None) \<longrightarrow>
      parse_student_info w html =
        Inl (ParseError (msg_required_pre @ u ''course'' @ msg_required_post)))"
proof -
  define data where "data = collect_data (BeautifulSoup w html)"
  have parse: "parse_student_info w html = build_student_info w data"
    by (simp add: parse_student_info_def data_def)
  have p0: "length required_fields = 11"
    by (simp add: required_fields_def)
  have p1: "\<forall>f. find (\<lambda>fld. dict_get data fld = None) required_fields = Some f \<longrightarrow>
      parse_student_info w html = Inl (ParseError (msg_required_pre @ f @ msg_required_post))"
    unfolding parse using build_student_info_missing by blast
  have p2: "(\<exists>f\<in>set required_fields. dict_get data f = None) \<longrightarrow>
      (\<exists>f\<in>set required_fields. dict_get data f = None \<and>
         parse_student_info w html =
           Inl (ParseError (msg_required_pre @ f @ msg_required_post)))"
  proof
    assume "\<exists>f\<in>set required_fields. dict_get data f = None"
    from find_missing [of required_fields "\<lambda>f. dict_get data f = None", OF this]
    obtain f where "f \<in> set required_fields" "dict_get data f = None"
      "find (\<lambda>f. dict_get data f = None) required_fields = Some f"
      by blast
    with p1 show "\<exists>f\<in>set required_fields. dict_get data f = None \<and>
         parse_student_info w html =
           Inl (ParseError (msg_required_pre @ f @ msg_required_post))"
      by blast
  qed
  have course: "dict_get data (u ''course'') = None"
    if "\<forall>(s, v)\<in>set (person_labels (BeautifulSoup w html)).
          \<forall>t. s = Some t \<longrightarrow> \<not> str_in lbl_course t"
    unfolding data_def dict_get_def collect_data_lookup extract_value_no_label [OF that]
    by simp
  have p3: "(\<forall>(s, v)\<in>set (person_labels (BeautifulSoup w html)).
        \<forall>t. s = Some t \<longrightarrow> \<not> str_in lbl_course t) \<longrightarrow>
      dict_get data (u ''course'') = None \<and>
      (\<exists>f\<in>set required_fields. dict_get data f = None \<and>
         parse_student_info w html =
           Inl (ParseError (msg_required_pre @ f @ msg_required_post)))"
  proof
    assume a: "\<forall>(s, v)\<in>set (person_labels (BeautifulSoup w html)).
        \<forall>t. s = Some t \<longrightarrow> \<not> str_in lbl_course t"
    have c: "dict_get data (u ''course'') = None"
      by (rule course [OF a])
    have "u ''course'' \<in> set required_fields"
      by (simp add: required_fields_def)
    with c have "\<exists>f\<in>set required_fields. dict_get data f = None"
      by blast
    with p2 c show "dict_get data (u ''course'') = None \<and>
      (\<exists>f\<in>set required_fields. dict_get data f = None \<and>
         parse_student_info w html =
           Inl (ParseError (msg_required_pre @ f @ msg_required_post)))"
      by blast
  qed
  have p4: "(\<forall>(s, v)\<in>set (person_labels (BeautifulSoup w html)).
        \<forall>t. s = Some t \<longrightarrow> \<not> str_in lbl_course t) \<and>
    (\<forall>f\<in>set (take 6 required_fields). dict_get data f \<noteq> None) \<longrightarrow>
      parse_student_info w html =
        Inl (ParseError (msg_required_pre @ u ''course'' @ msg_required_post))"
  proof
    assume a: "(\<forall>(s, v)\<in>set (person_labels (BeautifulSoup w html)).
        \<forall>t. s = Some t \<longrightarrow> \<not> str_in lbl_course t) \<and>
      (\<forall>f\<in>set (take 6 required_fields). dict_get data f \<noteq> None)"
    have c: "dict_get data (u ''course'') = None"
      by (rule course [OF a [THEN conjunct1]])
    have "find (\<lambda>fld. dict_get data fld = None) required_fields = Some (u ''course'')"
      using a [THEN conjunct2] c by (simp add: required_fields_def)
    with p1 show "parse_student_info w html =
        Inl (ParseError (msg_required_pre @ u ''course'' @ msg_required_post))"
      by blast
  qed
  show ?thesis
    unfolding data_def [symmetric] by (intro conjI p0 p1 p2 p3 p4)
qed

lemmas lbl_defs = lbl_record_book_number_def lbl_study_form_def lbl_preparation_level_def
  lbl_specialization_def lbl_specialty_def lbl_faculty_def lbl_course_def lbl_group_def
  lbl_financing_form_def lbl_dormitory_def lbl_end_date_def lbl_personal_email_def
  lbl_personal_phone_def lbl_corporate_email_def

lemma without_course_values:
  "person_name profile_without_course = Some (Some (u ''Ivanov Ivan''))"
  "extract_value profile_without_course lbl_record_book_number = Some (u ''12345678'')"
  "extract_value profile_without_course lbl_study_form = Some (u ''full-time'')"
  "extract_value profile_without_course lbl_preparation_level = Some (u ''bachelor'')"
  "extract_value profile_without_course lbl_specialty = Some (u ''09.03.01'')"
  "extract_value profile_without_course lbl_faculty = Some (u ''IT'')"
  by (simp_all add: extract_value_def profile_without_course_def full_labels_def lbl_defs)

lemma without_course_labels:
  "\<forall>(s, v)\<in>set (person_labels profile_without_course).
      \<forall>t. s = Some t \<longrightarrow> \<not> str_in lbl_course t"
  by (simp add: profile_without_course_def full_labels_def lbl_defs)

lemma without_course_present:
  "\<forall>f\<in>set (take 6 required_fields). dict_get (collect_data profile_without_course) f \<noteq> None"
  using collect_data_lookup [of profile_without_course]
    collect_data_full_name [of profile_without_course] without_course_values
  by (simp add: required_fields_def dict_get_def)

theorem parse_student_info_required_fields_witness:
  "BeautifulSoup (portal [] [] profile_without_course) (u ''profile'') = profile_without_course \<and>
   list_all (\<lambda>(s, v). case s of None \<Rightarrow> True | Some t \<Rightarrow> \<not> str_in lbl_course t)
     (person_labels profile_without_course) \<and>
   list_all (\<lambda>f. dict_get (collect_data profile_without_course) f \<noteq> None)
     (take 6 required_fields) \<and>
   dict_get (collect_data profile_without_course) (u ''course'') = None \<and>
   parse_student_info (portal [] [] profile_without_course) (u ''profile'') =
     Inl (ParseError (msg_required_pre @ u ''course'' @ msg_required_post))"
proof -
  have b: "BeautifulSoup (portal [] [] profile_without_course) (u ''profile'') =
      profile_without_course"
    by (simp add: portal_def)
  have h: "(\<forall>(s, v)\<in>set (person_labels
          (BeautifulSoup (portal [] [] profile_without_course) (u ''profile''))).
        \<forall>t. s = Some t \<longrightarrow> \<not> str_in lbl_course t) \<and>
    (\<forall>f\<in>set (take 6 required_fields).
        dict_get (collect_data
          (BeautifulSoup (portal [] [] profile_without_course) (u ''profile''))) f \<noteq> None)"
    unfolding b using without_course_labels without_course_present by (rule conjI)
  note t = parse_student_info_required_fields
    [of "portal [] [] profile_without_course" "u ''profile''"]
  have r: "parse_student_info (portal [] [] profile_without_course) (u ''profile'') =
     Inl (ParseError (msg_required_pre @ u ''course'' @ msg_required_post))"
    by (rule t [THEN conjunct2, THEN conjunct2, THEN conjunct2, THEN conjunct2, THEN mp,
          OF h])
  have c: "dict_get (collect_data profile_without_course) (u ''course'') = None"
    using t [THEN conjunct2, THEN conjunct2, THEN conjunct2, THEN conjunct1, THEN mp,
        OF h [THEN conjunct1], THEN conjunct1]
    unfolding b .
  have l1: "list_all (\<lambda>(s, v). case s of None \<Rightarrow> True | Some t \<Rightarrow> \<not> str_in lbl_course t)
     (person_labels profile_without_course)"
    using without_course_labels by (auto simp: list_all_iff split: option.splits)
  have l2: "list_all (\<lambda>f. dict_get (collect_data profile_without_course) f \<noteq> None)
     (take 6 required_fields)"
    using without_course_present by (simp only: list_all_iff)
  show ?thesis
    by (intro conjI b l1 l2 c r)
qed

lemma full_values:
  "person_name full_profile = Some (Some (u ''Ivanov Ivan''))"
  "extract_value full_profile lbl_record_book_number = Some (u ''12345678'')"
  "extract_value full_profile lbl_study_form = Some (u ''full-time'')"
  "extract_value full_profile lbl_preparation_level = Some (u ''bachelor'')"
  "extract_value full_profile lbl_specialty = Some (u ''09.03.01'')"
  "extract_value full_profile lbl_faculty = Some (u ''IT'')"
  "extract_value full_profile lbl_course = Some (u ''3'')"
  "extract_value full_profile lbl_group = Some (u ''IT-21-1'')"
  "extract_value full_profile lbl_financing_form = Some (u ''budget'')"
  "extract_value full_profile lbl_dormitory = Some (u ''yes'')"
  "extract_value full_profile lbl_end_date = Some (u ''2025-06-30'')"
  "extract_value full_profile lbl_personal_email = Some (u ''ivanov@example.com'')"
  "extract_value full_profile lbl_corporate_email = Some (u ''ivanov@student.misis.ru'')"
  by (simp_all add: extract_value_def full_profile_def full_labels_def lbl_defs)

lemma full_data_required:
  "\<forall>f\<in>set required_fields. \<exists>v. collect_data full_profile f = Some (Some v)"
  using collect_data_lookup [of full_profile] collect_data_full_name [of full_profile] full_values
  by (simp add: required_fields_def)

lemma full_data_names:
  "collect_data full_profile (u ''full_name'') = Some (Some (u ''Ivanov Ivan''))"
  "collect_data full_profile (u ''record_book_number'') = Some (Some (u ''12345678''))"
  "collect_data full_profile (u ''personal_email'') = Some (Some (u ''ivanov@example.com''))"
  "collect_data full_profile (u ''corporate_email'') = Some (Some (u ''ivanov@student.misis.ru''))"
  unfolding collect_data_lookup collect_data_full_name full_values by simp_all

lemma empty_email_data_valid:
  "(\<forall>f\<in>set required_fields. \<exists>v. empty_email_data f = Some (Some v)) \<and>
   (\<forall>v. empty_email_data (u ''full_name'') = Some (Some v) \<longrightarrow> py_strip v \<noteq> []) \<and>
   (\<forall>v. empty_email_data (u ''record_book_number'') = Some (Some v) \<longrightarrow> py_strip v \<noteq> []) \<and>
   (\<forall>e. empty_email_data (u ''personal_email'') = Some (Some e) \<longrightarrow>
        e = [] \<or> str_in (u ''@'') e) \<and>
   (\<forall>e. empty_email_data (u ''corporate_email'') = Some (Some e) \<longrightarrow>
        e = [] \<or> str_in (u ''@'') e)"
  using full_data_required full_data_names
  by (simp add: empty_email_data_def required_fields_def py_strip_def isspace_def)

lemma full_data_valid:
  "(\<forall>f\<in>set required_fields. \<exists>v. collect_data full_profile f = Some (Some v)) \<and>
   (\<forall>v. collect_data full_profile (u ''full_name'') = Some (Some v) \<longrightarrow> py_strip v \<noteq> []) \<and>
   (\<forall>v. collect_data full_profile (u ''record_book_number'') = Some (Some v) \<longrightarrow>
        py_strip v \<noteq> []) \<and>
   (\<forall>e. collect_data full_profile (u ''personal_email'') = Some (Some e) \<longrightarrow>
        e = [] \<or> str_in (u ''@'') e) \<and>
   (\<forall>e. collect_data full_profile (u ''corporate_email'') = Some (Some e) \<longrightarrow>
        e = [] \<or> str_in (u ''@'') e)"
  using full_data_required full_data_names
  by (simp add: required_fields_def py_strip_def isspace_def)

text \<open>
  Claim C8 as stated fails for an e-mail that is present and empty: it contains no
  \<open>@\<close>, and the record is constructed.
\<close>

theorem StudentInfo_empty_email_counterexample:
  "empty_email_data (u ''personal_email'') = Some (Some []) \<and> \<not> str_in (u ''@'') [] \<and>
   list_all (\<lambda>f. empty_email_data f \<noteq> None \<and> empty_email_data f \<noteq> Some None) required_fields \<and>
   \<not> isl (StudentInfo empty_email_data)"
proof -
  have a: "empty_email_data (u ''personal_email'') = Some (Some [])"
    by (simp add: empty_email_data_def)
  have b: "\<not> str_in (u ''@'') []"
    by simp
  have c: "list_all (\<lambda>f. empty_email_data f \<noteq> None \<and> empty_email_data f \<noteq> Some None)
      required_fields"
    using empty_email_data_valid [THEN conjunct1] by (auto simp: list_all_iff)
  have "\<exists>info. StudentInfo empty_email_data = Inr info \<and>
           personal_email info = dict_get empty_email_data (u ''personal_email'') \<and>
           corporate_email info = dict_get empty_email_data (u ''corporate_email'')"
    by (rule StudentInfo_valid [OF empty_email_data_valid [THEN conjunct1]
          empty_email_data_valid [THEN conjunct2, THEN conjunct1]
          empty_email_data_valid [THEN conjunct2, THEN conjunct2, THEN conjunct1]
          empty_email_data_valid [THEN conjunct2, THEN conjunct2, THEN conjunct2, THEN conjunct1]
          empty_email_data_valid [THEN conjunct2, THEN conjunct2, THEN conjunct2, THEN conjunct2]])
  then have d: "\<not> isl (StudentInfo empty_email_data)"
    by auto
  show ?thesis
    by (intro conjI a b c d)
qed

theorem StudentInfo_email_validation_witness:
  "bad_email_data (u ''personal_email'') = Some (Some (u ''nobody'')) \<and> u ''nobody'' \<noteq> [] \<and>
   \<not> str_in (u ''@'') (u ''nobody'') \<and> isl (StudentInfo bad_email_data) \<and>
   collect_data full_profile (u ''personal_email'') = Some (Some (u ''ivanov@example.com'')) \<and>
   str_in (u ''@'') (u ''ivanov@example.com'') \<and>
   list_all (\<lambda>f. collect_data full_profile f \<noteq> None \<and> collect_data full_profile f \<noteq> Some None)
     required_fields \<and>
   \<not> isl (StudentInfo (collect_data full_profile))"
proof -
  note t1 = StudentInfo_email_validation [of bad_email_data]
  note t2 = StudentInfo_email_validation [of "collect_data full_profile"]
  have a: "bad_email_data (u ''personal_email'') = Some (Some (u ''nobody''))"
    by (simp add: bad_email_data_def)
  have b: "u ''nobody'' \<noteq> []" "\<not> str_in (u ''@'') (u ''nobody'')"
    by simp_all
  have h: "(bad_email_data (u ''personal_email'') = Some (Some (u ''nobody'')) \<or>
       bad_email_data (u ''corporate_email'') = Some (Some (u ''nobody''))) \<and>
      u ''nobody'' \<noteq> [] \<and> \<not> str_in (u ''@'') (u ''nobody'')"
    using a b by blast
  have "\<exists>es. StudentInfo bad_email_data = Inl (ValidationError es) \<and>
         ((u ''personal_email'', msg_bad_email) \<in> set es \<or>
          (u ''corporate_email'', msg_bad_email) \<in> set es)"
    by (rule t1 [THEN conjunct1, THEN spec, THEN mp, OF h])
  then have c: "isl (StudentInfo bad_email_data)"
    by auto
  have "\<exists>info. StudentInfo (collect_data full_profile) = Inr info \<and>
         personal_email info = dict_get (collect_data full_profile) (u ''personal_email'') \<and>
         corporate_email info = dict_get (collect_data full_profile) (u ''corporate_email'')"
    by (rule t2 [THEN conjunct2, THEN mp, OF full_data_valid])
  then have d: "\<not> isl (StudentInfo (collect_data full_profile))"
    by auto
  have e: "str_in (u ''@'') (u ''ivanov@example.com'')"
    by simp
  have f: "list_all (\<lambda>f. collect_data full_profile f \<noteq> None \<and> collect_data full_profile f \<noteq> Some None)
     required_fields"
    using full_data_required by (auto simp: list_all_iff)
  show ?thesis
    by (intro conjI a b c full_data_names(3) e f d)
qed

section \<open>The errors of \<open>get_student_info\<close>\<close>

lemma build_student_info_invalid:
  assumes "find (\<lambda>fld. dict_get data fld = None) required_fields = None"
    and "StudentInfo data = Inl e"
  shows "is_validation e \<and>
         build_student_info w data = Inl (ParseError (msg_parse_failed @ exn_str w e))"
proof -
  have v: "is_validation e"
    using assms(2) by (rule StudentInfo_error)
  then obtain es where "e = ValidationError es"
    by (cases e) simp_all
  with assms v show ?thesis
    by (simp add: build_student_info_def)
qed

lemma get_student_info_parse_failure:
  assumes "session_info c = Some si" and "is_authenticated si"
    and "make_request w (get_request (BASE_URL @ u ''/ru/'' @ api_id si @ u ''/profile'')) c =
           (Inr (st, bd, ur, hs), c1)"
    and "\<not> str_in (u ''sign_in'') ur"
    and "parse_student_info w bd = Inl e"
  shows "get_student_info w c = (Inl e, c1)"
proof -
  have "is_parse e"
    using assms(5) by (rule parse_student_info_error)
  then have "student_info_except w e = e"
    by (simp add: student_info_except_fixed)
  with assms show ?thesis
    by (simp add: get_student_info_def get_request_def)
qed

text \<open>
  Claim C10. Every error that \<open>get_student_info\<close> raises is a SessionExpired, a Network
  or a Parse error. When no required field is missing and the construction of the
  record fails, the failure is pydantic's \<open>ValidationError\<close>, and \<open>_parse_student_info\<close>
  raises a Parse error whose message ends with that error's text; \<open>get_student_info\<close>
  raises that same Parse error, so no Validation error reaches the caller.
\<close>

theorem get_student_info_error_kinds:
  "(\<forall>e c'. get_student_info w c = (Inl e, c') \<longrightarrow>
      is_session_expired e \<or> is_network e \<or> is_parse e) \<and>
   (\<forall>e. find (\<lambda>fld. dict_get data fld = None) required_fields = None \<and>
        StudentInfo data = Inl e \<longrightarrow>
      is_validation e \<and>
      build_student_info w data = Inl (ParseError (msg_parse_failed @ exn_str w e))) \<and>
   (\<forall>si st bd ur hs c1 e.
      session_info c = Some si \<and> is_authenticated si \<and>
      make_request w (get_request (BASE_URL @ u ''/ru/'' @ api_id si @ u ''/profile'')) c =
        (Inr (st, bd, ur, hs), c1) \<and>
      \<not> str_in (u ''sign_in'') ur \<and>
      find (\<lambda>fld. dict_get (collect_data (BeautifulSoup w bd)) fld = None) required_fields = None \<and>
      StudentInfo (collect_data (BeautifulSoup w bd)) = Inl e \<longrightarrow>
      get_student_info w c = (Inl (ParseError (msg_parse_failed @ exn_str w e)), c1))"
proof -
  have p1: "\<forall>e c'. get_student_info w c = (Inl e, c') \<longrightarrow>
      is_session_expired e \<or> is_network e \<or> is_parse e"
    using get_student_info_error by blast
  have p2: "\<forall>e. find (\<lambda>fld. dict_get data fld = None) required_fields = None \<and>
        StudentInfo data = Inl e \<longrightarrow>
      is_validation e \<and>
      build_student_info w data = Inl (ParseError (msg_parse_failed @ exn_str w e))"
    using build_student_info_invalid by blast
  have p3: "\<forall>si st bd ur hs c1 e.
      session_info c = Some si \<and> is_authenticated si \<and>
      make_request w (get_request (BASE_URL @ u ''/ru/'' @ api_id si @ u ''/profile'')) c =
        (Inr (st, bd, ur, hs), c1) \<and>
      \<not> str_in (u ''sign_in'') ur \<and>
      find (\<lambda>fld. dict_get (collect_data (BeautifulSoup w bd)) fld = None) required_fields = None \<and>
      StudentInfo (collect_data (BeautifulSoup w bd)) = Inl e \<longrightarrow>
      get_student_info w c = (Inl (ParseError (msg_parse_failed @ exn_str w e)), c1)"
  proof (intro allI impI)
    fix si st bd ur hs c1 e
    assume a: "session_info c = Some si \<and> is_authenticated si \<and>
      make_request w (get_request (BASE_URL @ u ''/ru/'' @ api_id si @ u ''/profile'')) c =
        (Inr (st, bd, ur, hs), c1) \<and>
      \<not> str_in (u ''sign_in'') ur \<and>
      find (\<lambda>fld. dict_get (collect_data (BeautifulSoup w bd)) fld = None) required_fields = None \<and>
      StudentInfo (collect_data (BeautifulSoup w bd)) = Inl e"
    have b: "parse_student_info w bd = Inl (ParseError (msg_parse_failed @ exn_str w e))"
      unfolding parse_student_info_def
      using build_student_info_invalid
        [OF a [THEN conjunct2, THEN conjunct2, THEN conjunct2, THEN conjunct2, THEN conjunct1]
            a [THEN conjunct2, THEN conjunct2, THEN conjunct2, THEN conjunct2, THEN conjunct2]]
      by blast
    show "get_student_info w c = (Inl (ParseError (msg_parse_failed @ exn_str w e)), c1)"
      by (rule get_student_info_parse_failure [OF a [THEN conjunct1]
            a [THEN conjunct2, THEN conjunct1]
            a [THEN conjunct2, THEN conjunct2, THEN conjunct1]
            a [THEN conjunct2, THEN conjunct2, THEN conjunct2, THEN conjunct1] b])
  qed
  show ?thesis
    by (intro conjI p1 p2 p3)
qed

lemma bad_email_values:
  "person_name bad_email_profile = Some (Some (u ''Ivanov Ivan''))"
  "extract_value bad_email_profile lbl_record_book_number = Some (u ''12345678'')"
  "extract_value bad_email_profile lbl_study_form = Some (u ''full-time'')"
  "extract_value bad_email_profile lbl_preparation_level = Some (u ''bachelor'')"
  "extract_value bad_email_profile lbl_specialty = Some (u ''09.03.01'')"
  "extract_value bad_email_profile lbl_faculty = Some (u ''IT'')"
  "extract_value bad_email_profile lbl_course = Some (u ''3'')"
  "extract_value bad_email_profile lbl_group = Some (u ''IT-21-1'')"
  "extract_value bad_email_profile lbl_financing_form = Some (u ''budget'')"
  "extract_value bad_email_profile lbl_dormitory = Some (u ''yes'')"
  "extract_value bad_email_profile lbl_end_date = Some (u ''2025-06-30'')"
  "extract_value bad_email_profile lbl_personal_email = Some (u ''ivanov.example.com'')"
  by (simp_all add: extract_value_def bad_email_profile_def full_labels_def lbl_defs)

lemma bad_email_required:
  "find (\<lambda>fld. dict_get (collect_data bad_email_profile) fld = None) required_fields = None"
  using collect_data_lookup [of bad_email_profile] collect_data_full_name [of bad_email_profile]
    bad_email_values
  by (simp add: required_fields_def dict_get_def)

lemma bad_email_invalid:
  "\<exists>es. StudentInfo (collect_data bad_email_profile) = Inl (ValidationError es)"
proof -
  have k: "collect_data bad_email_profile (u ''personal_email'') =
      Some (Some (u ''ivanov.example.com''))"
    unfolding collect_data_lookup bad_email_values ..
  have "u ''ivanov.example.com'' \<noteq> []" "\<not> str_in (u ''@'') (u ''ivanov.example.com'')"
    by simp_all
  from StudentInfo_bad_personal_email
    [of "collect_data bad_email_profile" "u ''ivanov.example.com''", OF k this]
  show ?thesis by blast
qed

lemma bad_email_portal_profile:
  "make_request bad_email_portal
     (get_request (BASE_URL @ u ''/ru/'' @ api_id demo_session @ u ''/profile'')) logged_in =
     (Inr (200, u ''profile'', BASE_URL @ u ''/ru/s/profile'', Map.empty),
      logged_in\<lparr>requests := requests logged_in @ [profile_request]\<rparr>)"
  by (simp add: make_request_def upt_0_3 get_session_eq bad_email_portal_def portal_def
      profile_request_def get_request_def logged_in_def MisisClient_def demo_session_def
      AUTH_URL_def BASE_URL_def)

theorem get_student_info_error_kinds_witness:
  "session_info logged_in = Some demo_session \<and> is_authenticated demo_session \<and>
   \<not> str_in (u ''sign_in'') (BASE_URL @ u ''/ru/s/profile'') \<and>
   BeautifulSoup bad_email_portal (u ''profile'') = bad_email_profile \<and>
   find (\<lambda>fld. dict_get (collect_data bad_email_profile) fld = None) required_fields = None \<and>
   isl (StudentInfo (collect_data bad_email_profile)) \<and>
   get_student_info bad_email_portal logged_in =
     (Inl (ParseError (msg_parse_failed @ u ''validation error'')),
      logged_in\<lparr>requests := requests logged_in @ [profile_request]\<rparr>)"
proof -
  have s: "BeautifulSoup bad_email_portal (u ''profile'') = bad_email_profile"
    by (simp add: bad_email_portal_def portal_def)
  have n: "\<not> str_in (u ''sign_in'') (BASE_URL @ u ''/ru/s/profile'')"
    by (simp add: BASE_URL_def)
  have d: "is_authenticated demo_session"
    by (simp add: demo_session_def)
  obtain es where es: "StudentInfo (collect_data bad_email_profile) = Inl (ValidationError es)"
    using bad_email_invalid by blast
  have x: "exn_str bad_email_portal (ValidationError es) = u ''validation error''"
    by (simp add: bad_email_portal_def portal_def)
  have h: "session_info logged_in = Some demo_session \<and> is_authenticated demo_session \<and>
      make_request bad_email_portal
        (get_request (BASE_URL @ u ''/ru/'' @ api_id demo_session @ u ''/profile'')) logged_in =
        (Inr (200, u ''profile'', BASE_URL @ u ''/ru/s/profile'', Map.empty),
         logged_in\<lparr>requests := requests logged_in @ [profile_request]\<rparr>) \<and>
      \<not> str_in (u ''sign_in'') (BASE_URL @ u ''/ru/s/profile'') \<and>
      find (\<lambda>fld. dict_get (collect_data (BeautifulSoup bad_email_portal (u ''profile''))) fld
            = None) required_fields = None \<and>
      StudentInfo (collect_data (BeautifulSoup bad_email_portal (u ''profile''))) =
        Inl (ValidationError es)"
    unfolding s
    by (intro conjI logged_in_facts(2) d bad_email_portal_profile n bad_email_required es)
  have r: "get_student_info bad_email_portal logged_in =
     (Inl (ParseError (msg_parse_failed @ u ''validation error'')),
      logged_in\<lparr>requests := requests logged_in @ [profile_request]\<rparr>)"
    using get_student_info_error_kinds [of bad_email_portal logged_in "collect_data bad_email_profile",
        THEN conjunct2, THEN conjunct2, rule_format, OF h]
    unfolding x .
  have i: "isl (StudentInfo (collect_data bad_email_profile))"
    unfolding es by simp
  show ?thesis
    by (intro conjI logged_in_facts(2) d n s bad_email_required i r)
qed

section \<open>How errors propagate\<close>

lemma get_csrf_token_transport_error:
  assumes "make_request w (get_request AUTH_URL) c = (Inl e, c1)"
  shows "get_csrf_token w c = (Inl (csrf_except w e), c1)"
  using assms by (simp add: get_csrf_token_def get_request_def)

lemma authenticate_token_error:
  assumes "py_strip lg \<noteq> []" and "pw \<noteq> []" and "get_csrf_token w c = (Inl e, c1)"
  shows "authenticate w lg pw c = (Inl e, c1)"
proof -
  have "is_network e \<or> is_parse e"
    using assms(3) by (rule get_csrf_token_error)
  then have "authenticate_except w e = e"
    by (auto simp: authenticate_except_fixed)
  with assms show ?thesis
    by (simp add: authenticate_def AuthenticationData_valid)
qed

lemma authenticate_post_error:
  assumes "py_strip lg \<noteq> []" and "pw \<noteq> []" and "get_csrf_token w c = (Inr tok, c1)"
    and "make_request w
           \<lparr>http_method = u ''POST'', req_url = AUTH_URL,
            form_data = Some (auth_payload
              \<lparr>login = py_strip lg, password = pw, remember_me = False\<rparr> tok),
            allow_redirects = False\<rparr> c1 = (Inl e, c2)"
  shows "authenticate w lg pw c = (Inl (authenticate_except w e), c2)"
  using assms by (simp add: authenticate_def AuthenticationData_valid)

lemma get_student_info_transport_error:
  assumes "session_info c = Some si" and "is_authenticated si"
    and "make_request w (get_request (BASE_URL @ u ''/ru/'' @ api_id si @ u ''/profile'')) c =
           (Inl e, c1)"
  shows "get_student_info w c = (Inl (student_info_except w e), c1)"
  using assms by (simp add: get_student_info_def get_request_def)


text \<open>
  Claim C6. An error of \<open>authenticate\<close> is a Network, Authentication, Parse or
  Validation error, and one of \<open>get_student_info\<close> a SessionExpired, Network or Parse
  error: the five kinds. A Network error of the transport passes unchanged through the
  token fetch, through \<open>authenticate\<close> and through \<open>get_student_info\<close>; an error of the
  token fetch, which is a Network or a Parse error, passes unchanged through
  \<open>authenticate\<close>, and a Parse error of the profile parser through \<open>get_student_info\<close>.
  Any other exception is wrapped, with its text, where it is caught: as a Parse error by
  the token fetch, the profile parser and \<open>get_student_info\<close>, as an Authentication error
  by \<open>authenticate\<close>.
\<close>

theorem errors_stay_classified:
  "(\<forall>e c'. authenticate w lg pw c = (Inl e, c') \<longrightarrow>
      is_network e \<or> is_authentication e \<or> is_parse e \<or> is_validation e) \<and>
   (\<forall>e c'. get_student_info w c = (Inl e, c') \<longrightarrow>
      is_session_expired e \<or> is_network e \<or> is_parse e) \<and>
   (\<forall>m c1. make_request w (get_request AUTH_URL) c = (Inl (NetworkError m), c1) \<longrightarrow>
      get_csrf_token w c = (Inl (NetworkError m), c1)) \<and>
   (\<forall>m c1. make_request w (get_request AUTH_URL) c = (Inl (OtherException m), c1) \<longrightarrow>
      get_csrf_token w c = (Inl (ParseError (msg_csrf_failed @ m)), c1)) \<and>
   (\<forall>e c1. py_strip lg \<noteq> [] \<and> pw \<noteq> [] \<and> get_csrf_token w c = (Inl e, c1) \<longrightarrow>
      (is_network e \<or> is_parse e) \<and> authenticate w lg pw c = (Inl e, c1)) \<and>
   (\<forall>tok c1 m c2. py_strip lg \<noteq> [] \<and> pw \<noteq> [] \<and> get_csrf_token w c = (Inr tok, c1) \<and>
      make_request w
        \<lparr>http_method = u ''POST'', req_url = AUTH_URL,
         form_data = Some (auth_payload
           \<lparr>login = py_strip lg, password = pw, remember_me = False\<rparr> tok),
         allow_redirects = False\<rparr> c1 = (Inl (NetworkError m), c2) \<longrightarrow>
      authenticate w lg pw c = (Inl (NetworkError m), c2)) \<and>
   (\<forall>tok c1 m c2. py_strip lg \<noteq> [] \<and> pw \<noteq> [] \<and> get_csrf_token w c = (Inr tok, c1) \<and>
      make_request w
        \<lparr>http_method = u ''POST'', req_url = AUTH_URL,
         form_data = Some (auth_payload
           \<lparr>login = py_strip lg, password = pw, remember_me = False\<rparr> tok),
         allow_redirects = False\<rparr> c1 = (Inl (OtherException m), c2) \<longrightarrow>
      authenticate w lg pw c = (Inl (AuthenticationError (msg_auth_failed @ m)), c2)) \<and>
   (\<forall>si m c1. session_info c = Some si \<and> is_authenticated si \<and>
      make_request w (get_request (BASE_URL @ u ''/ru/'' @ api_id si @ u ''/profile'')) c =
        (Inl (NetworkError m), c1) \<longrightarrow>
      get_student_info w c = (Inl (NetworkError m), c1)) \<and>
   (\<forall>si m c1. session_info c = Some si \<and> is_authenticated si \<and>
      make_request w (get_request (BASE_URL @ u ''/ru/'' @ api_id si @ u ''/profile'')) c =
        (Inl (OtherException m), c1) \<longrightarrow>
      get_student_info w c = (Inl (ParseError (msg_student_failed @ m)), c1)) \<and>
   (\<forall>si st bd ur hs c1 e. session_info c = Some si \<and> is_authenticated si \<and>
      make_request w (get_request (BASE_URL @ u ''/ru/'' @ api_id si @ u ''/profile'')) c =
        (Inr (st, bd, ur, hs), c1) \<and>
      \<not> str_in (u ''sign_in'') ur \<and> parse_student_info w bd = Inl e \<longrightarrow>
      is_parse e \<and> get_student_info w c = (Inl e, c1)) \<and>
   (\<forall>e. \<not> is_authentication e \<and> \<not> is_network e \<and> \<not> is_parse e \<longrightarrow>
      authenticate_except w e = AuthenticationError (msg_auth_failed @ exn_str w e)) \<and>
   (\<forall>e. \<not> is_parse e \<longrightarrow> parse_except w e = ParseError (msg_parse_failed @ exn_str w e))"
proof -
  have p1: "\<forall>e c'. authenticate w lg pw c = (Inl e, c') \<longrightarrow>
      is_network e \<or> is_authentication e \<or> is_parse e \<or> is_validation e"
    using authenticate_error by blast
  have p2: "\<forall>e c'. get_student_info w c = (Inl e, c') \<longrightarrow>
      is_session_expired e \<or> is_network e \<or> is_parse e"
    using get_student_info_error by blast
  have p3: "\<forall>m c1. make_request w (get_request AUTH_URL) c = (Inl (NetworkError m), c1) \<longrightarrow>
      get_csrf_token w c = (Inl (NetworkError m), c1)"
    using get_csrf_token_transport_error [of w c "NetworkError _"] by simp
  have p4: "\<forall>m c1. make_request w (get_request AUTH_URL) c = (Inl (OtherException m), c1) \<longrightarrow>
      get_csrf_token w c = (Inl (ParseError (msg_csrf_failed @ m)), c1)"
    using get_csrf_token_transport_error [of w c "OtherException _"] by simp
  have p5: "\<forall>e c1. py_strip lg \<noteq> [] \<and> pw \<noteq> [] \<and> get_csrf_token w c = (Inl e, c1) \<longrightarrow>
      (is_network e \<or> is_parse e) \<and> authenticate w lg pw c = (Inl e, c1)"
    using get_csrf_token_error authenticate_token_error by blast
  have p6: "\<forall>tok c1 m c2. py_strip lg \<noteq> [] \<and> pw \<noteq> [] \<and> get_csrf_token w c = (Inr tok, c1) \<and>
      make_request w
        \<lparr>http_method = u ''POST'', req_url = AUTH_URL,
         form_data = Some (auth_payload
           \<lparr>login = py_strip lg, password = pw, remember_me = False\<rparr> tok),
         allow_redirects = False\<rparr> c1 = (Inl (NetworkError m), c2) \<longrightarrow>
      authenticate w lg pw c = (Inl (NetworkError m), c2)"
  proof (intro allI impI)
    fix tok c1 m c2
    assume a: "py_strip lg \<noteq> [] \<and> pw \<noteq> [] \<and> get_csrf_token w c = (Inr tok, c1) \<and>
      make_request w
        \<lparr>http_method = u ''POST'', req_url = AUTH_URL,
         form_data = Some (auth_payload
           \<lparr>login = py_strip lg, password = pw, remember_me = False\<rparr> tok),
         allow_redirects = False\<rparr> c1 = (Inl (NetworkError m), c2)"
    from authenticate_post_error [OF a [THEN conjunct1] a [THEN conjunct2, THEN conjunct1]
        a [THEN conjunct2, THEN conjunct2, THEN conjunct1]
        a [THEN conjunct2, THEN conjunct2, THEN conjunct2]]
    show "authenticate w lg pw c = (Inl (NetworkError m), c2)"
      by simp
  qed
  have p7: "\<forall>tok c1 m c2. py_strip lg \<noteq> [] \<and> pw \<noteq> [] \<and> get_csrf_token w c = (Inr tok, c1) \<and>
      make_request w
        \<lparr>http_method = u ''POST'', req_url = AUTH_URL,
         form_data = Some (auth_payload
           \<lparr>login = py_strip lg, password = pw, remember_me = False\<rparr> tok),
         allow_redirects = False\<rparr> c1 = (Inl (OtherException m), c2) \<longrightarrow>
      authenticate w lg pw c = (Inl (AuthenticationError (msg_auth_failed @ m)), c2)"
  proof (intro allI impI)
    fix tok c1 m c2
    assume a: "py_strip lg \<noteq> [] \<and> pw \<noteq> [] \<and> get_csrf_token w c = (Inr tok, c1) \<and>
      make_request w
        \<lparr>http_method = u ''POST'', req_url = AUTH_URL,
         form_data = Some (auth_payload
           \<lparr>login = py_strip lg, password = pw, remember_me = False\<rparr> tok),
         allow_redirects = False\<rparr> c1 = (Inl (OtherException m), c2)"
    from authenticate_post_error [OF a [THEN conjunct1] a [THEN conjunct2, THEN conjunct1]
        a [THEN conjunct2, THEN conjunct2, THEN conjunct1]
        a [THEN conjunct2, THEN conjunct2, THEN conjunct2]]
    show "authenticate w lg pw c = (Inl (AuthenticationError (msg_auth_failed @ m)), c2)"
      by simp
  qed
  have p8: "\<forall>si m c1. session_info c = Some si \<and> is_authenticated si \<and>
      make_request w (get_request (BASE_URL @ u ''/ru/'' @ api_id si @ u ''/profile'')) c =
        (Inl (NetworkError m), c1) \<longrightarrow>
      get_student_info w c = (Inl (NetworkError m), c1)"
  proof (intro allI impI)
    fix si m c1
    assume a: "session_info c = Some si \<and> is_authenticated si \<and>
      make_request w (get_request (BASE_URL @ u ''/ru/'' @ api_id si @ u ''/profile'')) c =
        (Inl (NetworkError m), c1)"
    from get_student_info_transport_error [OF a [THEN conjunct1]
        a [THEN conjunct2, THEN conjunct1] a [THEN conjunct2, THEN conjunct2]]
    show "get_student_info w c = (Inl (NetworkError m), c1)"
      by simp
  qed
  have p9: "\<forall>si m c1. session_info c = Some si \<and> is_authenticated si \<and>
      make_request w (get_request (BASE_URL @ u ''/ru/'' @ api_id si @ u ''/profile'')) c =
        (Inl (OtherException m), c1) \<longrightarrow>
      get_student_info w c = (Inl (ParseError (msg_student_failed @ m)), c1)"
  proof (intro allI impI)
    fix si m c1
    assume a: "session_info c = Some si \<and> is_authenticated si \<and>
      make_request w (get_request (BASE_URL @ u ''/ru/'' @ api_id si @ u ''/profile'')) c =
        (Inl (OtherException m), c1)"
    from get_student_info_transport_error [OF a [THEN conjunct1]
        a [THEN conjunct2, THEN conjunct1] a [THEN conjunct2, THEN conjunct2]]
    show "get_student_info w c = (Inl (ParseError (msg_student_failed @ m)), c1)"
      by simp
  qed
  have p10: "\<forall>si st bd ur hs c1 e. session_info c = Some si \<and> is_authenticated si \<and>
      make_request w (get_request (BASE_URL @ u ''/ru/'' @ api_id si @ u ''/profile'')) c =
        (Inr (st, bd, ur, hs), c1) \<and>
      \<not> str_in (u ''sign_in'') ur \<and> parse_student_info w bd = Inl e \<longrightarrow>
      is_parse e \<and> get_student_info w c = (Inl e, c1)"
  proof (intro allI impI)
    fix si st bd ur hs c1 e
    assume a: "session_info c = Some si \<and> is_authenticated si \<and>
      make_request w (get_request (BASE_URL @ u ''/ru/'' @ api_id si @ u ''/profile'')) c =
        (Inr (st, bd, ur, hs), c1) \<and>
      \<not> str_in (u ''sign_in'') ur \<and> parse_student_info w bd = Inl e"
    have "is_parse e"
      by (rule parse_student_info_error
          [OF a [THEN conjunct2, THEN conjunct2, THEN conjunct2, THEN conjunct2]])
    moreover have "get_student_info w c = (Inl e, c1)"
      by (rule get_student_info_parse_failure [OF a [THEN conjunct1]
            a [THEN conjunct2, THEN conjunct1]
            a [THEN conjunct2, THEN conjunct2, THEN conjunct1]
            a [THEN conjunct2, THEN conjunct2, THEN conjunct2, THEN conjunct1]
            a [THEN conjunct2, THEN conjunct2, THEN conjunct2, THEN conjunct2]])
    ultimately show "is_parse e \<and> get_student_info w c = (Inl e, c1)"
      by (rule conjI)
  qed
  have p11: "\<forall>e. \<not> is_authentication e \<and> \<not> is_network e \<and> \<not> is_parse e \<longrightarrow>
      authenticate_except w e = AuthenticationError (msg_auth_failed @ exn_str w e)"
  proof (intro allI impI)
    fix e assume "\<not> is_authentication e \<and> \<not> is_network e \<and> \<not> is_parse e"
    then show "authenticate_except w e = AuthenticationError (msg_auth_failed @ exn_str w e)"
      by (cases e) simp_all
  qed
  have p12: "\<forall>e. \<not> is_parse e \<longrightarrow> parse_except w e = ParseError (msg_parse_failed @ exn_str w e)"
  proof (intro allI impI)
    fix e assume "\<not> is_parse e"
    then show "parse_except w e = ParseError (msg_parse_failed @ exn_str w e)"
      by (cases e) simp_all
  qed
  show ?thesis
    by (intro conjI p1 p2 p3 p4 p5 p6 p7 p8 p9 p10 p11 p12)
qed

lemma server_500_request:
  "max_retries c = 3 \<Longrightarrow>
   make_request server_500 rq c =
     (Inl (NetworkError (u ''HTTP 500: Internal Server Error'')),
      c\<lparr>http_session := True, requests := requests c @ [rq, rq, rq],
        sleeps := sleeps c @ [1, 2]\<rparr>)"
  by (simp add: make_request_def upt_0_3 get_session_eq server_500_def str_int_def)

lemma server_timeout_request:
  "max_retries c = 3 \<Longrightarrow>
   make_request server_timeout rq c =
     (Inl (OtherException (u ''timeout'')),
      c\<lparr>http_session := True, requests := requests c @ [rq]\<rparr>)"
  by (simp add: make_request_def upt_0_3 get_session_eq server_timeout_def)

lemma user_secret: "py_strip (u ''user'') \<noteq> [] \<and> u ''secret'' \<noteq> []"
  by (simp add: py_strip_def isspace_def)

theorem errors_stay_classified_witness:
  "authenticate server_500 (u ''user'') (u ''secret'') (MisisClient 3 False) =
     (Inl (NetworkError (u ''HTTP 500: Internal Server Error'')),
      (MisisClient 3 False)\<lparr>http_session := True,
        requests := requests (MisisClient 3 False) @
          [get_request AUTH_URL, get_request AUTH_URL, get_request AUTH_URL],
        sleeps := sleeps (MisisClient 3 False) @ [1, 2]\<rparr>) \<and>
   authenticate server_timeout (u ''user'') (u ''secret'') (MisisClient 3 False) =
     (Inl (ParseError (msg_csrf_failed @ u ''timeout'')),
      (MisisClient 3 False)\<lparr>http_session := True,
        requests := requests (MisisClient 3 False) @ [get_request AUTH_URL]\<rparr>) \<and>
   session_info logged_in = Some demo_session \<and> is_authenticated demo_session \<and>
   get_student_info server_500 logged_in =
     (Inl (NetworkError (u ''HTTP 500: Internal Server Error'')),
      logged_in\<lparr>http_session := True,
        requests := requests logged_in @ [profile_request, profile_request, profile_request],
        sleeps := sleeps logged_in @ [1, 2]\<rparr>) \<and>
   get_student_info server_timeout logged_in =
     (Inl (ParseError (msg_student_failed @ u ''timeout'')),
      logged_in\<lparr>http_session := True, requests := requests logged_in @ [profile_request]\<rparr>)"
proof -
  note t5 = errors_stay_classified
    [of server_500 "u ''user''" "u ''secret''" "MisisClient 3 False"]
  note tt = errors_stay_classified
    [of server_timeout "u ''user''" "u ''secret''" "MisisClient 3 False"]
  note l5 = errors_stay_classified [of server_500 "u ''user''" "u ''secret''" logged_in]
  note lt = errors_stay_classified [of server_timeout "u ''user''" "u ''secret''" logged_in]
  have d: "is_authenticated demo_session"
    by (simp add: demo_session_def)
  have g5: "get_csrf_token server_500 (MisisClient 3 False) =
      (Inl (NetworkError (u ''HTTP 500: Internal Server Error'')),
       (MisisClient 3 False)\<lparr>http_session := True,
        requests := requests (MisisClient 3 False) @
          [get_request AUTH_URL, get_request AUTH_URL, get_request AUTH_URL],
        sleeps := sleeps (MisisClient 3 False) @ [1, 2]\<rparr>)"
    by (rule t5 [THEN conjunct2, THEN conjunct2, THEN conjunct1, rule_format,
          OF server_500_request [OF fresh_client_facts(1)]])
  have a5: "authenticate server_500 (u ''user'') (u ''secret'') (MisisClient 3 False) =
     (Inl (NetworkError (u ''HTTP 500: Internal Server Error'')),
      (MisisClient 3 False)\<lparr>http_session := True,
        requests := requests (MisisClient 3 False) @
          [get_request AUTH_URL, get_request AUTH_URL, get_request AUTH_URL],
        sleeps := sleeps (MisisClient 3 False) @ [1, 2]\<rparr>)"
    using t5 [THEN conjunct2, THEN conjunct2, THEN conjunct2, THEN conjunct2, THEN conjunct1,
        rule_format, OF conjI [OF user_secret [THEN conjunct1]
          conjI [OF user_secret [THEN conjunct2] g5]]]
    by (rule conjunct2)
  have gt: "get_csrf_token server_timeout (MisisClient 3 False) =
      (Inl (ParseError (msg_csrf_failed @ u ''timeout'')),
       (MisisClient 3 False)\<lparr>http_session := True,
        requests := requests (MisisClient 3 False) @ [get_request AUTH_URL]\<rparr>)"
    by (rule tt [THEN conjunct2, THEN conjunct2, THEN conjunct2, THEN conjunct1, rule_format,
          OF server_timeout_request [OF fresh_client_facts(1)]])
  have at: "authenticate server_timeout (u ''user'') (u ''secret'') (MisisClient 3 False) =
     (Inl (ParseError (msg_csrf_failed @ u ''timeout'')),
      (MisisClient 3 False)\<lparr>http_session := True,
        requests := requests (MisisClient 3 False) @ [get_request AUTH_URL]\<rparr>)"
    using tt [THEN conjunct2, THEN conjunct2, THEN conjunct2, THEN conjunct2, THEN conjunct1,
        rule_format, OF conjI [OF user_secret [THEN conjunct1]
          conjI [OF user_secret [THEN conjunct2] gt]]]
    by (rule conjunct2)
  have s5: "get_student_info server_500 logged_in =
     (Inl (NetworkError (u ''HTTP 500: Internal Server Error'')),
      logged_in\<lparr>http_session := True,
        requests := requests logged_in @ [profile_request, profile_request, profile_request],
        sleeps := sleeps logged_in @ [1, 2]\<rparr>)"
    unfolding profile_request_def
    by (rule l5 [THEN conjunct2, THEN conjunct2, THEN conjunct2, THEN conjunct2, THEN conjunct2,
          THEN conjunct2, THEN conjunct2, THEN conjunct1, rule_format,
          OF conjI [OF logged_in_facts(2) conjI [OF d
            server_500_request [OF logged_in_facts(1)]]]])
  have st: "get_student_info server_timeout logged_in =
     (Inl (ParseError (msg_student_failed @ u ''timeout'')),
      logged_in\<lparr>http_session := True, requests := requests logged_in @ [profile_request]\<rparr>)"
    unfolding profile_request_def
    by (rule lt [THEN conjunct2, THEN conjunct2, THEN conjunct2, THEN conjunct2, THEN conjunct2,
          THEN conjunct2, THEN conjunct2, THEN conjunct2, THEN conjunct1, rule_format,
          OF conjI [OF logged_in_facts(2) conjI [OF d
            server_timeout_request [OF logged_in_facts(1)]]]])
  show ?thesis
    by (intro conjI a5 at logged_in_facts(2) d s5 st)
qed

section \<open>The transport, for any number of retries\<close>

text \<open>
  The same for any positive \<open>max_retries = n\<close>: against a server that always answers
  with a status of 400 or more, \<open>_make_request\<close> issues exactly \<open>n\<close> requests, sleeps
  \<open>2 ^ 0, ..., 2 ^ (n - 2)\<close> between them and raises the Network error of the last
  response.
\<close>

lemma attempts_all_fail:
  assumes all: "\<forall>h. \<exists>r. respond w h rq = Responded r \<and> status r \<ge> 400"
  shows "max_retries c = int n \<Longrightarrow> k < n \<Longrightarrow>
    \<exists>r c'. attempts w rq [k..<n] c =
        (Inl (NetworkError (u ''HTTP '' @ str_int (status r) @ u '': '' @ reason r)), c') \<and>
      respond w (requests c @ replicate (n - k - 1) rq) rq = Responded r \<and>
      requests c' = requests c @ replicate (n - k) rq \<and>
      sleeps c' = sleeps c @ map (\<lambda>a. 2 ^ a) [k..<n - 1]"
proof (induction "n - k" arbitrary: k c)
  case 0
  then show ?case by simp
next
  case (Suc d)
  obtain r where r: "respond w (requests c) rq = Responded r" "status r \<ge> 400"
    using all by blast
  have upt: "[k..<n] = k # [Suc k..<n]"
    using Suc.prems(2) by (simp add: upt_conv_Cons)
  show ?case
  proof (cases "Suc k = n")
    case True
    then have "int k = max_retries c - 1"
      using Suc.prems(1) by simp
    moreover have "n - k = Suc 0" "n - k - 1 = 0" "n - 1 = k" "[Suc k..<n] = []"
      using True by auto
    ultimately show ?thesis
      unfolding upt using r by (simp add: Let_def)
  next
    case False
    then have lt: "Suc k < n"
      using Suc.prems(2) by simp
    define c1 where "c1 = c\<lparr>requests := requests c @ [rq], sleeps := sleeps c @ [2 ^ k]\<rparr>"
    have ne: "int k \<noteq> max_retries c - 1"
      using Suc.prems(1) False by simp
    have step: "attempts w rq [k..<n] c = attempts w rq [Suc k..<n] c1"
      unfolding upt c1_def using r ne by (simp add: Let_def)
    have d: "d = n - Suc k"
      using Suc.hyps(2) by simp
    have m: "max_retries c1 = int n"
      using Suc.prems(1) by (simp add: c1_def)
    from Suc.hyps(1) [OF d m lt]
    obtain r' c' where ih: "attempts w rq [Suc k..<n] c1 =
        (Inl (NetworkError (u ''HTTP '' @ str_int (status r') @ u '': '' @ reason r')), c')"
      "respond w (requests c1 @ replicate (n - Suc k - 1) rq) rq = Responded r'"
      "requests c' = requests c1 @ replicate (n - Suc k) rq"
      "sleeps c' = sleeps c1 @ map (\<lambda>a. 2 ^ a) [Suc k..<n - 1]"
      by blast
    have rep: "replicate (n - k - 1) rq = rq # replicate (n - Suc k - 1) rq"
      "replicate (n - k) rq = rq # replicate (n - Suc k) rq"
      using lt by (simp_all add: Suc_diff_Suc flip: replicate_Suc)
    have upt2: "[k..<n - 1] = k # [Suc k..<n - 1]"
      using lt by (simp add: upt_conv_Cons)
    show ?thesis
      using ih unfolding step rep upt2 by (simp add: c1_def)
  qed
qed

lemma make_request_all_fail:
  assumes "\<forall>h. \<exists>r. respond w h rq = Responded r \<and> status r \<ge> 400"
    and "max_retries c = int n" and "0 < n"
  shows "\<exists>r c'. make_request w rq c =
        (Inl (NetworkError (u ''HTTP '' @ str_int (status r) @ u '': '' @ reason r)), c') \<and>
      respond w (requests c @ replicate (n - 1) rq) rq = Responded r \<and>
      requests c' = requests c @ replicate n rq \<and>
      sleeps c' = sleeps c @ map (\<lambda>a. 2 ^ a) [0..<n - 1] \<and>
      sorted (map (\<lambda>a. 2 ^ a :: nat) [0..<n - 1])"
proof -
  have m: "max_retries (get_session c) = int n"
    using assms(2) by (simp add: get_session_eq)
  have s: "sorted (map (\<lambda>a. 2 ^ a :: nat) [0..<n - 1])"
    by (simp add: sorted_map sorted_wrt_iff_nth_less)
  from attempts_all_fail [OF assms(1) m assms(3)] s show ?thesis
    unfolding make_request_def using assms(2) by (simp add: get_session_eq)
qed

section \<open>The profile parser: which missing field is named\<close>

lemma without_faculty_course_values:
  "person_name profile_without_faculty_course = Some (Some (u ''Ivanov Ivan''))"
  "extract_value profile_without_faculty_course lbl_record_book_number = Some (u ''12345678'')"
  "extract_value profile_without_faculty_course lbl_study_form = Some (u ''full-time'')"
  "extract_value profile_without_faculty_course lbl_preparation_level = Some (u ''bachelor'')"
  "extract_value profile_without_faculty_course lbl_specialty = Some (u ''09.03.01'')"
  "extract_value profile_without_faculty_course lbl_faculty = None"
  "extract_value profile_without_faculty_course lbl_course = None"
  by (simp_all add: extract_value_def profile_without_faculty_course_def full_labels_def lbl_defs)

lemma without_faculty_course_first:
  "find (\<lambda>fld. dict_get (collect_data profile_without_faculty_course) fld = None)
     required_fields = Some (u ''faculty'')"
  using collect_data_lookup [of profile_without_faculty_course]
    collect_data_full_name [of profile_without_faculty_course] without_faculty_course_values
  by (simp add: required_fields_def dict_get_def)

text \<open>
  Claim C7 as stated fails for a page that lacks the caption of the course and an
  earlier required one: without the captions of the faculty and of the course the Parse
  error names \<open>faculty\<close>, and \<open>course\<close> does not occur in its message.
\<close>

theorem parse_names_first_missing_counterexample:
  "list_all (\<lambda>(s, v). case s of None \<Rightarrow> True | Some t \<Rightarrow> \<not> str_in lbl_course t)
     (person_labels profile_without_faculty_course) \<and>
   dict_get (collect_data profile_without_faculty_course) (u ''course'') = None \<and>
   parse_student_info (portal [] [] profile_without_faculty_course) (u ''profile'') =
     Inl (ParseError (msg_required_pre @ u ''faculty'' @ msg_required_post)) \<and>
   \<not> str_in (u ''course'') (msg_required_pre @ u ''faculty'' @ msg_required_post)"
proof -
  have a: "list_all (\<lambda>(s, v). case s of None \<Rightarrow> True | Some t \<Rightarrow> \<not> str_in lbl_course t)
     (person_labels profile_without_faculty_course)"
    by (simp add: profile_without_faculty_course_def full_labels_def lbl_defs)
  have b: "dict_get (collect_data profile_without_faculty_course) (u ''course'') = None"
    unfolding dict_get_def collect_data_lookup without_faculty_course_values by simp
  have s: "BeautifulSoup (portal [] [] profile_without_faculty_course) (u ''profile'') =
      profile_without_faculty_course"
    by (simp add: portal_def)
  have c: "parse_student_info (portal [] [] profile_without_faculty_course) (u ''profile'') =
     Inl (ParseError (msg_required_pre @ u ''faculty'' @ msg_required_post))"
    unfolding parse_student_info_def s
    by (rule build_student_info_missing [OF without_faculty_course_first])
  have d: "\<not> str_in (u ''course'') (msg_required_pre @ u ''faculty'' @ msg_required_post)"
    by (simp add: msg_required_pre_def msg_required_post_def)
  show ?thesis
    by (intro conjI a b c d)
qed

end
